theory Spec2Isabelle
  imports Complex_Main "HOL-Library.Sublist"
begin

section \<open>Data model of \<open>AbstractTradingMode\<close>\<close>

text \<open>
  Exceptions of the Python source as values. \<open>KeyboardInterrupt\<close> and
  \<open>CancelledError\<close> (asyncio, Python 3.8 and later) derive from \<open>BaseException\<close>
  only, so that a handler \<^verbatim>\<open>except Exception\<close> does not catch them.
\<close>

datatype exn =
    AttributeError
  | KeyError
  | TypeError
  | RuntimeError
  | AuthenticationRequired
  | UnavailableError
  | KeyboardInterrupt
  | CancelledError
  | IndexError
  | OtherError string

fun is_Exception :: "exn \<Rightarrow> bool" where
  "is_Exception KeyboardInterrupt = False"
| "is_Exception CancelledError = False"
| "is_Exception _ = True"

datatype 'a outcome = Returned 'a | Raised exn

text \<open>The attributes of the exchange manager that the trading mode reads.\<close>

record exchange_manager =
  bot_id :: string
  exchange_name :: string
  is_backtesting :: bool

text \<open>Values found in a tentacle configuration, with Python's truth value. The two keys
  that this class reads are constants of \<open>octobot_commons.constants\<close>; they are kept as
  two distinct keys, every other key of a configuration is an \<open>OtherKey\<close>.\<close>

datatype cfg_val = CBool bool | CStr string

datatype config_key =
    CONFIG_EMIT_TRADING_SIGNALS
  | CONFIG_TRADING_SIGNALS_STRATEGY
  | OtherKey string

fun truthy :: "cfg_val \<Rightarrow> bool" where
  "truthy (CBool b) = b"
| "truthy (CStr s) = (s \<noteq> [])"

text \<open>
  The instance attributes set by \<open>__init__\<close>. Producers and consumers are
  identified by numbers; \<open>trading_config\<close> is \<open>None\<close> until a configuration is loaded.
\<close>

record trading_mode =
  name :: string
  exchange_manager :: "exchange_manager option"
  trading_config :: "(config_key \<rightharpoonup> cfg_val) option"
  producers :: "nat list"
  consumers :: "nat list"
  are_metadata_saved :: bool

text \<open>
  The effects on the collaborators are recorded in a trace. \<open>MetadataWritten b\<close> marks
  the normal exit of the scoped writer block of \<open>save_backtesting_data\<close> for bot \<open>b\<close>:
  the backtesting metadata of \<open>b\<close> has been written successfully.
\<close>

datatype event =
    SaveInvoked
  | SaveReturned
  | RunDbResolved string
  | RunDbFlushed string
  | UserInputsRead string
  | TransactionsStored string
  | TradesStored string
  | WriterOpened string
  | MetadataComputed string
  | MetadataLogged string
  | MetadataWritten string
  | ProducerStop nat
  | ConsumerStop nat
  | ExchangeManagerReleased

text \<open>Orders, as far as this class reads them, and the records that the order methods
  hand to a signal bundle builder: the arguments of \<open>add_created_order\<close>,
  \<open>add_cancelled_order\<close> and \<open>add_edited_order\<close>.\<close>

datatype side = BUY | SELL

record trade_order =
  order_id :: string
  symbol :: string
  side :: side
  origin_quantity :: rat

datatype signal_record =
    CreatedOrder trade_order exchange_manager string
  | CancelledOrder trade_order exchange_manager
  | EditedOrder trade_order exchange_manager "rat option" "rat option" "rat option" "rat option"

text \<open>A signal bundle builder: the identifier and the timeout it was created with, and
  the records added so far.\<close>

record bundle_builder =
  signal_identifier :: cfg_val
  signal_timeout :: nat
  records :: "signal_record list"

text \<open>The part of the exchange's state that the trader changes and the order size
  computation reads: the holdings by currency.\<close>

type_synonym exchange_state = "string \<rightharpoonup> rat"

text \<open>
  The state outside the instance: the class attribute
  \<open>SAVED_RUN_METADATA_DB_BY_BOT_ID\<close> (one dict shared by every instance), the trace,
  the exchange's state, the signal bundle builders that are live (by symbol), the bundles
  sent to the remote audience and the exceptions handed to
  \<open>logger.exception\<close>.
\<close>

record world =
  saved_run_metadata_db_by_bot_id :: "string \<rightharpoonup> bool"
  trace :: "event list"
  exchange_state :: exchange_state
  builders :: "string \<rightharpoonup> bundle_builder"
  emitted :: "(string \<times> bundle_builder) list"
  logged :: "exn list"

definition emit :: "event \<Rightarrow> world \<Rightarrow> world" where
  "emit e w = w\<lparr>trace := trace w @ [e]\<rparr>"

text \<open>\<^verbatim>\<open>SAVED_RUN_METADATA_DB_BY_BOT_ID.get(bot_id, False)\<close>\<close>

definition saved_flag :: "world \<Rightarrow> string \<Rightarrow> bool" where
  "saved_flag w b = (case saved_run_metadata_db_by_bot_id w b of None \<Rightarrow> False | Some v \<Rightarrow> v)"

definition set_saved_flag :: "string \<Rightarrow> bool \<Rightarrow> world \<Rightarrow> world" where
  "set_saved_flag b v w =
     w\<lparr>saved_run_metadata_db_by_bot_id := (saved_run_metadata_db_by_bot_id w)(b \<mapsto> v)\<rparr>"

section \<open>Saving the backtesting metadata\<close>

text \<open>
  The awaited calls into the run databases are outside this class. Each one either raises
  (\<open>Some e\<close>) or completes (\<open>None\<close>); a \<open>db_env\<close> fixes what they do during one call of
  \<open>save_backtesting_data\<close>.
\<close>

record db_env =
  run_db_lookup_raises :: "exn option"
  flush_raises :: "exn option"
  get_user_inputs_raises :: "exn option"
  save_transactions_raises :: "exn option"
  save_trades_raises :: "exn option"
  open_writer_raises :: "exn option"
  get_backtesting_metadata_raises :: "exn option"
  save_metadata_raises :: "exn option"
  close_writer_raises :: "exn option"

text \<open>A sequence of awaited calls: the first one that raises ends the sequence.\<close>

fun run_steps :: "(exn option \<times> event) list \<Rightarrow> world \<Rightarrow> unit outcome \<times> world" where
  "run_steps [] w = (Returned (), w)"
| "run_steps ((None, ev) # rest) w = run_steps rest (emit ev w)"
| "run_steps ((Some e, ev) # rest) w = (Raised e, w)"

text \<open>Lines 497 to 506: the run databases are resolved and flushed, the user inputs read,
  transactions and trades stored.\<close>

definition prepare_run_data :: "db_env \<Rightarrow> string \<Rightarrow> world \<Rightarrow> unit outcome \<times> world" where
  "prepare_run_data env b w =
     run_steps
       [(run_db_lookup_raises env, RunDbResolved b),
        (flush_raises env, RunDbFlushed b),
        (get_user_inputs_raises env, UserInputsRead b),
        (save_transactions_raises env, TransactionsStored b),
        (save_trades_raises env, TradesStored b)] w"

text \<open>Lines 512 to 519: the body of the \<open>try\<close> block after the flag has been set. The
  metadata is computed before \<open>save_metadata\<close> is called; \<open>are_metadata_saved\<close> is set
  inside the writer's scope, before the scope is left.\<close>

definition write_metadata ::
  "db_env \<Rightarrow> string \<Rightarrow> trading_mode \<Rightarrow> world \<Rightarrow> unit outcome \<times> trading_mode \<times> world" where
  "write_metadata env b m w =
     (case run_steps
        [(open_writer_raises env, WriterOpened b),
         (get_backtesting_metadata_raises env, MetadataComputed b),
         (save_metadata_raises env, MetadataLogged b)] w of
        (Raised e, w1) \<Rightarrow> (Raised e, m, w1)
      | (Returned _, w1) \<Rightarrow>
          (case close_writer_raises env of
             Some e \<Rightarrow> (Raised e, m\<lparr>are_metadata_saved := True\<rparr>, w1)
           | None \<Rightarrow> (Returned (), m\<lparr>are_metadata_saved := True\<rparr>, emit (MetadataWritten b) w1)))"

definition save_backtesting_data ::
  "db_env \<Rightarrow> trading_mode \<Rightarrow> world \<Rightarrow> unit outcome \<times> trading_mode \<times> world" where
  "save_backtesting_data env m w =
     (case exchange_manager m of
        None \<Rightarrow> (Returned (), m, w)
      | Some em \<Rightarrow>
          if are_metadata_saved m then (Returned (), m, w)
          else
            (case prepare_run_data env (bot_id em) w of
               (Raised e, w1) \<Rightarrow> (Raised e, m, w1)
             | (Returned _, w1) \<Rightarrow>
                 if \<not> saved_flag w1 (bot_id em) then
                   (case write_metadata env (bot_id em) m (set_saved_flag (bot_id em) True w1) of
                      (Raised e, m2, w2) \<Rightarrow>
                        if is_Exception e
                        then (Raised e, m2, set_saved_flag (bot_id em) False w2)
                        else (Raised e, m2, w2)
                    | (Returned _, m2, w2) \<Rightarrow> (Returned (), m2, w2))
                 else (Returned (), m, w1)))"

section \<open>Stopping a trading mode\<close>

text \<open>What the \<open>stop\<close> methods of the producers and consumers do during one call.\<close>

record stop_env =
  db :: db_env
  producer_stop_raises :: "nat \<Rightarrow> exn option"
  consumer_stop_raises :: "nat \<Rightarrow> exn option"

text \<open>The two \<open>for\<close> loops of \<open>stop\<close>: each element's \<open>stop()\<close> is awaited in list order.
  The event marks the call; a call that raises ends the loop.\<close>

fun stop_each ::
  "(nat \<Rightarrow> exn option) \<Rightarrow> (nat \<Rightarrow> event) \<Rightarrow> nat list \<Rightarrow> world \<Rightarrow> unit outcome \<times> world" where
  "stop_each raises ev [] w = (Returned (), w)"
| "stop_each raises ev (p # ps) w =
     (case raises p of
        Some e \<Rightarrow> (Raised e, emit (ev p) w)
      | None \<Rightarrow> stop_each raises ev ps (emit (ev p) w))"

text \<open>Lines 218 to 222 of \<open>stop\<close>: the producers, then the consumers, then the
  reference to the exchange manager.\<close>

definition stop_producers_and_consumers ::
  "stop_env \<Rightarrow> trading_mode \<Rightarrow> world \<Rightarrow> unit outcome \<times> trading_mode \<times> world" where
  "stop_producers_and_consumers env m w =
     (case stop_each (producer_stop_raises env) ProducerStop (producers m) w of
        (Raised e, w2) \<Rightarrow> (Raised e, m, w2)
      | (Returned _, w2) \<Rightarrow>
          (case stop_each (consumer_stop_raises env) ConsumerStop (consumers m) w2 of
             (Raised e, w3) \<Rightarrow> (Raised e, m, w3)
           | (Returned _, w3) \<Rightarrow>
               (Returned (), m\<lparr>exchange_manager := None\<rparr>, emit ExchangeManagerReleased w3)))"

text \<open>\<open>stop\<close>: reading \<open>is_backtesting\<close> of a released exchange manager raises
  \<open>AttributeError\<close>; \<open>SaveInvoked\<close> and \<open>SaveReturned\<close> bracket the awaited call of
  \<open>save_backtesting_data\<close>.\<close>

definition stop :: "stop_env \<Rightarrow> trading_mode \<Rightarrow> world \<Rightarrow> unit outcome \<times> trading_mode \<times> world" where
  "stop env m w =
     (case exchange_manager m of
        None \<Rightarrow> (Raised AttributeError, m, w)
      | Some em \<Rightarrow>
          if is_backtesting em
          then (case save_backtesting_data (db env) m (emit SaveInvoked w) of
                  (Raised e, m1, w1) \<Rightarrow> (Raised e, m1, w1)
                | (Returned _, m1, w1) \<Rightarrow>
                    stop_producers_and_consumers env m1 (emit SaveReturned w1))
          else stop_producers_and_consumers env m w)"

text \<open>
  A sequence of \<open>stop()\<close> calls on the instances of a process, each given by the index of
  its instance and by what the collaborators do during it. A call that raises leaves the
  state it reached; the caller goes on with the next call.
\<close>

fun run_stops ::
  "(nat \<times> stop_env) list \<Rightarrow> trading_mode list \<times> world \<Rightarrow> trading_mode list \<times> world" where
  "run_stops [] s = s"
| "run_stops ((i, env) # cs) (ms, w) =
     (if i < length ms
      then (case stop env (ms ! i) w of (r, m', w') \<Rightarrow> run_stops cs (ms[i := m'], w'))
      else run_stops cs (ms, w))"

definition successful_writes :: "string \<Rightarrow> world \<Rightarrow> nat" where
  "successful_writes b w = length (filter (\<lambda>e. e = MetadataWritten b) (trace w))"

section \<open>Trading signals\<close>

definition is_trading_signal_emitter :: "trading_mode \<Rightarrow> cfg_val outcome" where
  \<comment> \<open>subscripting \<open>None\<close> raises \<open>TypeError\<close>, which the handler does not catch\<close>
  "is_trading_signal_emitter m =
     (case trading_config m of
        None \<Rightarrow> Raised TypeError
      | Some cfg \<Rightarrow>
          (case cfg CONFIG_EMIT_TRADING_SIGNALS of
             Some v \<Rightarrow> Returned v
           | None \<Rightarrow> Returned (CBool False)))"

definition should_emit_trading_signal :: "trading_mode \<Rightarrow> cfg_val outcome" where
  \<comment> \<open>\<^verbatim>\<open>not self.exchange_manager.is_backtesting and self.is_trading_signal_emitter()\<close>\<close>
  "should_emit_trading_signal m =
     (case exchange_manager m of
        None \<Rightarrow> Raised AttributeError
      | Some em \<Rightarrow>
          if \<not> is_backtesting em then is_trading_signal_emitter m
          else Returned (CBool False))"

definition get_trading_signal_identifier :: "trading_mode \<Rightarrow> cfg_val outcome" where
  \<comment> \<open>\<^verbatim>\<open>self.trading_config[...] or self.get_name()\<close>, and the name on \<open>KeyError\<close>\<close>
  "get_trading_signal_identifier m =
     (case trading_config m of
        None \<Rightarrow> Raised TypeError
      | Some cfg \<Rightarrow>
          (case cfg CONFIG_TRADING_SIGNALS_STRATEGY of
             Some v \<Rightarrow> if truthy v then Returned v else Returned (CStr (name m))
           | None \<Rightarrow> Returned (CStr (name m))))"

text \<open>
  Modelled from the spec: \<open>SignalPublisher.get_signal_bundle_builder\<close> and the builder's
  \<open>add_created_order\<close>, \<open>add_cancelled_order\<close>, \<open>add_edited_order\<close> are not under
  src. The spec has each of them append one record to the builder that is live for the
  symbol. Looking up a symbol with no live builder is taken to raise \<open>KeyError\<close>.
\<close>

definition add_record :: "string \<Rightarrow> signal_record \<Rightarrow> world \<Rightarrow> world outcome" where
  "add_record key r w =
     (case builders w key of
        None \<Rightarrow> Raised KeyError
      | Some b \<Rightarrow>
          Returned (w\<lparr>builders := (builders w)(key \<mapsto> b\<lparr>records := records b @ [r]\<rparr>)\<rparr>))"

section \<open>Orders\<close>

text \<open>
  The collaborators of the order methods, which are outside this class: the order size
  computation \<open>orders.get_order_size_portfolio_percent\<close>, which reads the exchange's
  state; Python's \<open>str(float(percent))\<close>; the constant \<open>QuantityType.PERCENT.value\<close>;
  and the three calls of the trader, which change the exchange's state and return or raise.
\<close>

type_synonym params = "(string \<times> string) list"

record order_env =
  get_order_size_portfolio_percent ::
    "exchange_state \<Rightarrow> rat \<Rightarrow> side \<Rightarrow> string \<Rightarrow> rat outcome"
  float_str :: "rat \<Rightarrow> string"
  percent_value :: string
  trader_create_order ::
    "trade_order \<Rightarrow> bool \<Rightarrow> params option \<Rightarrow> nat option \<Rightarrow> exchange_state
       \<Rightarrow> trade_order option outcome \<times> exchange_state"
  trader_cancel_order ::
    "trade_order \<Rightarrow> trade_order option \<Rightarrow> exchange_state \<Rightarrow> bool outcome \<times> exchange_state"
  trader_edit_order ::
    "trade_order \<Rightarrow> rat option \<Rightarrow> rat option \<Rightarrow> rat option \<Rightarrow> rat option
       \<Rightarrow> params option \<Rightarrow> exchange_state \<Rightarrow> bool outcome \<times> exchange_state"

text \<open>Lines 444 to 452 of \<open>create_order\<close>: the target amount, computed before the trader
  is called.\<close>

definition order_pf_percent ::
  "trading_mode \<Rightarrow> order_env \<Rightarrow> trade_order \<Rightarrow> world \<Rightarrow> string outcome" where
  "order_pf_percent m env order w =
     (case should_emit_trading_signal m of
        Raised e \<Rightarrow> Raised e
      | Returned v \<Rightarrow>
          if truthy v then
            (case get_order_size_portfolio_percent env (exchange_state w)
                    (origin_quantity order) (side order) (symbol order) of
               Raised e \<Rightarrow> Raised e
             | Returned percent \<Rightarrow> Returned (float_str env percent @ percent_value env))
          else Returned (''0'' @ percent_value env))"

definition create_order ::
  "trading_mode \<Rightarrow> order_env \<Rightarrow> trade_order \<Rightarrow> bool \<Rightarrow> params option \<Rightarrow> nat option \<Rightarrow> world
     \<Rightarrow> trade_order option outcome \<times> world" where
  "create_order m env order loaded params pre_init_callback w =
     (case order_pf_percent m env order w of
        Raised e \<Rightarrow> (Raised e, w)
      | Returned pf_percent \<Rightarrow>
          (case exchange_manager m of
             None \<Rightarrow> (Raised AttributeError, w)
           | Some em \<Rightarrow>
               (case trader_create_order env order loaded params pre_init_callback
                       (exchange_state w) of
                  (Raised e, x) \<Rightarrow> (Raised e, w\<lparr>exchange_state := x\<rparr>)
                | (Returned None, x) \<Rightarrow> (Returned None, w\<lparr>exchange_state := x\<rparr>)
                | (Returned (Some created_order), x) \<Rightarrow>
                    (case should_emit_trading_signal m of
                       Raised e \<Rightarrow> (Raised e, w\<lparr>exchange_state := x\<rparr>)
                     | Returned v \<Rightarrow>
                         if truthy v then
                           (case add_record (symbol order)
                                   (CreatedOrder created_order em pf_percent)
                                   (w\<lparr>exchange_state := x\<rparr>) of
                              Raised e \<Rightarrow> (Raised e, w\<lparr>exchange_state := x\<rparr>)
                            | Returned w2 \<Rightarrow> (Returned (Some created_order), w2))
                         else (Returned (Some created_order), w\<lparr>exchange_state := x\<rparr>)))))"

definition cancel_order ::
  "trading_mode \<Rightarrow> order_env \<Rightarrow> trade_order \<Rightarrow> trade_order option \<Rightarrow> world
     \<Rightarrow> bool outcome \<times> world" where
  "cancel_order m env order ignored_order w =
     (case exchange_manager m of
        None \<Rightarrow> (Raised AttributeError, w)
      | Some em \<Rightarrow>
          (case trader_cancel_order env order ignored_order (exchange_state w) of
             (Raised e, x) \<Rightarrow> (Raised e, w\<lparr>exchange_state := x\<rparr>)
           | (Returned cancelled, x) \<Rightarrow>
               (case should_emit_trading_signal m of
                  Raised e \<Rightarrow> (Raised e, w\<lparr>exchange_state := x\<rparr>)
                | Returned v \<Rightarrow>
                    if truthy v \<and> cancelled then
                      (case add_record (symbol order) (CancelledOrder order em)
                              (w\<lparr>exchange_state := x\<rparr>) of
                         Raised e \<Rightarrow> (Raised e, w\<lparr>exchange_state := x\<rparr>)
                       | Returned w2 \<Rightarrow> (Returned cancelled, w2))
                    else (Returned cancelled, w\<lparr>exchange_state := x\<rparr>))))"

definition edit_order ::
  "trading_mode \<Rightarrow> order_env \<Rightarrow> trade_order \<Rightarrow> rat option \<Rightarrow> rat option \<Rightarrow> rat option
     \<Rightarrow> rat option \<Rightarrow> params option \<Rightarrow> world \<Rightarrow> bool outcome \<times> world" where
  "edit_order m env order edited_quantity edited_price edited_stop_price edited_current_price
       params w =
     (case exchange_manager m of
        None \<Rightarrow> (Raised AttributeError, w)
      | Some em \<Rightarrow>
          (case trader_edit_order env order edited_quantity edited_price edited_stop_price
                  edited_current_price params (exchange_state w) of
             (Raised e, x) \<Rightarrow> (Raised e, w\<lparr>exchange_state := x\<rparr>)
           | (Returned changed, x) \<Rightarrow>
               (case should_emit_trading_signal m of
                  Raised e \<Rightarrow> (Raised e, w\<lparr>exchange_state := x\<rparr>)
                | Returned v \<Rightarrow>
                    if truthy v \<and> changed then
                      (case add_record (symbol order)
                              (EditedOrder order em edited_quantity edited_price
                                 edited_stop_price edited_current_price)
                              (w\<lparr>exchange_state := x\<rparr>) of
                         Raised e \<Rightarrow> (Raised e, w\<lparr>exchange_state := x\<rparr>)
                       | Returned w2 \<Rightarrow> (Returned changed, w2))
                    else (Returned changed, w\<lparr>exchange_state := x\<rparr>))))"

section \<open>The scope of a remote signal bundle\<close>

text \<open>
  Modelled from the spec: \<open>SignalPublisher.remote_signal_bundle_builder\<close> is not under
  src. The spec has it open a scope in which one builder is live for the symbol, and
  flush the accumulated bundle as one operation when the scope is left; it raises an
  authentication-required or transport-unavailable condition. A \<open>scope_env\<close> fixes
  whether it raises while the scope is entered and while it is left. A bundle without
  records is not sent; a bundle whose flush raises is dropped.
\<close>

record scope_env =
  enter_raises :: "exn option"
  exit_raises :: "exn option"

definition TRADING_SIGNAL_TIMEOUT :: nat where
  "TRADING_SIGNAL_TIMEOUT = 10"

definition open_builder :: "string \<Rightarrow> cfg_val \<Rightarrow> world \<Rightarrow> world" where
  "open_builder key ident w =
     (case builders w key of
        Some b \<Rightarrow> w
      | None \<Rightarrow>
          w\<lparr>builders := (builders w)
                (key \<mapsto> \<lparr>signal_identifier = ident, signal_timeout = TRADING_SIGNAL_TIMEOUT,
                        records = []\<rparr>)\<rparr>)"

definition close_builder :: "bool \<Rightarrow> string \<Rightarrow> world \<Rightarrow> world" where
  "close_builder sent key w =
     (case builders w key of
        None \<Rightarrow> w
      | Some b \<Rightarrow>
          w\<lparr>builders := (builders w)(key := None),
            emitted := (if sent \<and> records b \<noteq> [] then emitted w @ [(key, b)] else emitted w)\<rparr>)"

text \<open>\<^verbatim>\<open>except (authentication.AuthenticationRequired, authentication.UnavailableError)\<close>\<close>

fun is_signal_transport_error :: "exn \<Rightarrow> bool" where
  "is_signal_transport_error AuthenticationRequired = True"
| "is_signal_transport_error UnavailableError = True"
| "is_signal_transport_error _ = False"

definition log_exception :: "exn \<Rightarrow> world \<Rightarrow> world" where
  "log_exception e w = w\<lparr>logged := logged w @ [e]\<rparr>"

text \<open>
  \<open>remote_signal_publisher\<close> is a generator wrapped by
  \<open>contextlib.asynccontextmanager\<close>. Entering the context runs the generator to its
  \<open>yield\<close> and hands the yielded value to the body of the \<open>async with\<close> statement; a
  generator that ends without yielding makes the context manager raise
  \<open>RuntimeError\<close> (generator didn't yield). The yielded builder is represented by the
  symbol it is live for.
\<close>

definition enter_scope ::
  "trading_mode \<Rightarrow> scope_env \<Rightarrow> string \<Rightarrow> world \<Rightarrow> string option outcome \<times> world" where
  "enter_scope m senv key w =
     (case should_emit_trading_signal m of
        Raised e \<Rightarrow> (Raised e, w)
      | Returned v \<Rightarrow>
          if truthy v then
            (case get_trading_signal_identifier m of
               Raised e \<Rightarrow> (Raised e, w)
             | Returned ident \<Rightarrow>
                 (case enter_raises senv of
                    Some e \<Rightarrow>
                      if is_signal_transport_error e
                      then (Raised RuntimeError, log_exception e w)
                      else (Raised e, w)
                  | None \<Rightarrow> (Returned (Some key), open_builder key ident w)))
          else (Returned None, w))"

text \<open>
  Leaving the context resumes the generator at its \<open>yield\<close>, with the exception of the
  body thrown in if the body raised. After \<open>yield None\<close> the generator ends, and an
  exception of the body goes on to the caller. After \<open>yield signal_builder\<close> the scope
  of the builder is left first; whatever is raised then, by that scope or by the body,
  meets the handler: an authentication or availability error is logged and the generator
  ends normally, which completes the \<open>async with\<close> statement normally also when the
  body had raised (result \<open>Returned None\<close>); any other exception goes on to the caller.
\<close>

definition leave_scope ::
  "scope_env \<Rightarrow> string \<Rightarrow> string option \<Rightarrow> 'a outcome \<Rightarrow> world \<Rightarrow> 'a option outcome \<times> world" where
  "leave_scope senv key yielded body_result w =
     (case yielded of
        None \<Rightarrow>
          (case body_result of
             Returned a \<Rightarrow> (Returned (Some a), w)
           | Raised x \<Rightarrow> (Raised x, w))
      | Some _ \<Rightarrow>
          (case exit_raises senv of
             Some e \<Rightarrow>
               if is_signal_transport_error e
               then (Returned (case body_result of Returned a \<Rightarrow> Some a | Raised _ \<Rightarrow> None),
                     log_exception e (close_builder False key w))
               else (Raised e, close_builder False key w)
           | None \<Rightarrow>
               (case body_result of
                  Returned a \<Rightarrow> (Returned (Some a), close_builder True key w)
                | Raised x \<Rightarrow>
                    if is_signal_transport_error x
                    then (Returned None, log_exception x (close_builder True key w))
                    else (Raised x, close_builder True key w))))"

text \<open>\<^verbatim>\<open>async with self.remote_signal_publisher(symbol) as builder: body\<close>\<close>

definition with_remote_signal_publisher ::
  "trading_mode \<Rightarrow> scope_env \<Rightarrow> string \<Rightarrow> (string option \<Rightarrow> world \<Rightarrow> 'a outcome \<times> world) \<Rightarrow> world
     \<Rightarrow> 'a option outcome \<times> world" where
  "with_remote_signal_publisher m senv key body w =
     (case enter_scope m senv key w of
        (Raised e, w1) \<Rightarrow> (Raised e, w1)
      | (Returned yielded, w1) \<Rightarrow>
          (case body yielded w1 of
             (body_result, w2) \<Rightarrow> leave_scope senv key yielded body_result w2))"

section \<open>The backtesting metadata\<close>

text \<open>Trades and user inputs, as far as \<open>get_backtesting_metadata\<close> reads them; the keys
  of \<open>common_enums.BacktestingMetadata\<close> and the values stored under them.\<close>

datatype order_status = OPEN | FILLED | CANCELED

record trade =
  trade_status :: order_status
  trade_side :: side

record user_input =
  tentacle :: string
  input_name :: string
  input_value :: string
  is_nested_config :: bool

datatype metadata_key =
    OPTIMIZATION_CAMPAIGN | BACKTESTING_ID | GAINS | PERCENT_GAINS | END_PORTFOLIO
  | START_PORTFOLIO | WIN_RATE | DRAW_DOWN | COEFFICIENT_OF_DETERMINATION_MAX_BALANCE
  | COEFFICIENT_OF_DETERMINATION_END_BALANCE | SYMBOLS | TIME_FRAMES | START_TIME | END_TIME
  | DURATION | ENTRIES | WINS | LOSES | TRADES | TIMESTAMP | MODE_NAME | LEVERAGE
  | USER_INPUTS | BACKTESTING_FILES | EXCHANGE

datatype metadata_value =
    MNum rat
  | MInt int
  | MStr string
  | MStrs "string list"
  | MInputs "string \<rightharpoonup> (string \<rightharpoonup> string)"

record run_data =
  optimization_campaign_name :: string
  backtesting_id :: string
  trading_pairs :: "string list"
  profitability :: rat
  profitability_percent :: rat
  origin_portfolio_str :: string
  end_portfolio_str :: string
  required_time_frames :: "string list"
  has_future_contracts :: bool
  pair_current_leverage :: "string \<Rightarrow> rat"
  trade_history :: "trade list"
  win_rate :: rat
  draw_down :: rat
  r_sq_end_balance :: "rat option"
  r_sq_max_balance :: "rat option"
  backtesting_starting_time :: rat
  backtesting_ending_time :: rat
  backtesting_duration :: rat
  start_time :: rat
  backtesting_data_files :: "string list"

text \<open>
  Python's numbers. The results of the statistics are \<open>Decimal\<close> values and floats, here
  rationals. \<open>float(x)\<close> is a parameter \<open>to_float\<close> of the model. \<open>round(x, ndigits)\<close>
  is decimal rounding to \<open>ndigits\<close> places with ties to the even digit, and \<open>round(x)\<close>
  the same to an integer; the representation error of binary floats is not modelled.
\<close>

definition round_half_even :: "rat \<Rightarrow> int" where
  "round_half_even x =
     (if x - of_int \<lfloor>x\<rfloor> < 1 / 2 then \<lfloor>x\<rfloor>
      else if 1 / 2 < x - of_int \<lfloor>x\<rfloor> then \<lfloor>x\<rfloor> + 1
      else if even \<lfloor>x\<rfloor> then \<lfloor>x\<rfloor> else \<lfloor>x\<rfloor> + 1)"

definition py_round :: "rat \<Rightarrow> nat \<Rightarrow> rat" where
  "py_round x ndigits = of_int (round_half_even (x * 10 ^ ndigits)) / 10 ^ ndigits"

text \<open>Lines 589 to 597: the user inputs by tentacle and name, nested configurations left
  out.\<close>

fun format_user_inputs ::
  "user_input list \<Rightarrow> (string \<rightharpoonup> (string \<rightharpoonup> string)) \<Rightarrow> (string \<rightharpoonup> (string \<rightharpoonup> string))" where
  "format_user_inputs [] formatted = formatted"
| "format_user_inputs (u # us) formatted =
     format_user_inputs us
       (if \<not> is_nested_config u then
          (case formatted (tentacle u) of
             Some inputs \<Rightarrow> formatted(tentacle u \<mapsto> inputs(input_name u \<mapsto> input_value u))
           | None \<Rightarrow> formatted(tentacle u \<mapsto> [input_name u \<mapsto> input_value u]))
        else formatted)"

definition get_additional_backtesting_metadata :: "metadata_key \<rightharpoonup> metadata_value" where
  "get_additional_backtesting_metadata = Map.empty"

text \<open>\<^verbatim>\<open>value or 0\<close>\<close>

definition or_zero :: "rat option \<Rightarrow> rat" where
  "or_zero v = (case v of None \<Rightarrow> 0 | Some x \<Rightarrow> if x = 0 then 0 else x)"

text \<open>
  \<open>get_backtesting_metadata\<close>. What the trading API, the backtesting API and the run
  databases identifier return is gathered in a \<open>run_data\<close>, together with the
  instance's \<open>start_time\<close>. The portfolios are taken as the strings that \<open>str\<close> gives,
  the leverage is read from the contract of the first trading pair when the exchange is
  a future exchange with contracts, and the additional metadata is merged last.
\<close>

definition get_backtesting_metadata ::
  "(rat \<Rightarrow> rat) \<Rightarrow> trading_mode \<Rightarrow> run_data \<Rightarrow> user_input list
     \<Rightarrow> (metadata_key \<rightharpoonup> metadata_value) outcome" where
  "get_backtesting_metadata to_float m d user_inputs =
     (case exchange_manager m of
        None \<Rightarrow> Raised AttributeError
      | Some em \<Rightarrow>
          (case (if has_future_contracts d
                 then (case trading_pairs d of
                         [] \<Rightarrow> Raised IndexError
                       | s # _ \<Rightarrow> Returned (to_float (pair_current_leverage d s)))
                 else Returned 0) of
             Raised e \<Rightarrow> Raised e
           | Returned leverage \<Rightarrow>
               (let entries = filter (\<lambda>t. trade_status t = FILLED \<and> trade_side t = BUY)
                                (trade_history d);
                    win_rate = py_round (to_float (win_rate d * 100)) 3;
                    wins = round_half_even (win_rate * of_nat (length entries) / 100);
                    draw_down = py_round (to_float (draw_down d)) 3
                in Returned
                  ([OPTIMIZATION_CAMPAIGN \<mapsto> MStr (optimization_campaign_name d),
                    BACKTESTING_ID \<mapsto> MStr (backtesting_id d),
                    GAINS \<mapsto> MNum (py_round (to_float (profitability d)) 8),
                    PERCENT_GAINS \<mapsto> MNum (py_round (to_float (profitability_percent d)) 3),
                    END_PORTFOLIO \<mapsto> MStr (end_portfolio_str d),
                    START_PORTFOLIO \<mapsto> MStr (origin_portfolio_str d),
                    WIN_RATE \<mapsto> MNum win_rate,
                    DRAW_DOWN \<mapsto> MNum (or_zero (Some draw_down)),
                    COEFFICIENT_OF_DETERMINATION_MAX_BALANCE \<mapsto> MNum (or_zero (r_sq_max_balance d)),
                    COEFFICIENT_OF_DETERMINATION_END_BALANCE \<mapsto> MNum (or_zero (r_sq_end_balance d)),
                    SYMBOLS \<mapsto> MStrs (trading_pairs d),
                    TIME_FRAMES \<mapsto> MStrs (required_time_frames d),
                    START_TIME \<mapsto> MNum (backtesting_starting_time d),
                    END_TIME \<mapsto> MNum (backtesting_ending_time d),
                    DURATION \<mapsto> MNum (py_round (backtesting_duration d) 3),
                    ENTRIES \<mapsto> MInt (int (length entries)),
                    WINS \<mapsto> MInt wins,
                    LOSES \<mapsto> MInt (int (length entries) - wins),
                    TRADES \<mapsto> MInt (int (length (trade_history d))),
                    TIMESTAMP \<mapsto> MNum (start_time d),
                    MODE_NAME \<mapsto> MStr (name m),
                    LEVERAGE \<mapsto> MNum leverage,
                    USER_INPUTS \<mapsto> MInputs (format_user_inputs user_inputs Map.empty),
                    BACKTESTING_FILES \<mapsto> MStrs (backtesting_data_files d),
                    EXCHANGE \<mapsto> MStr (exchange_name em)]
                   ++ get_additional_backtesting_metadata))))"

section \<open>Vocabulary of the properties\<close>

text \<open>The steps of the teardown, as opposed to the effects of the metadata save on the
  run databases.\<close>

fun is_teardown_step :: "event \<Rightarrow> bool" where
  "is_teardown_step SaveInvoked = True"
| "is_teardown_step SaveReturned = True"
| "is_teardown_step (ProducerStop p) = True"
| "is_teardown_step (ConsumerStop c) = True"
| "is_teardown_step ExchangeManagerReleased = True"
| "is_teardown_step _ = False"

text \<open>The order of the teardown that \<open>stop\<close> is to follow, with the effects \<open>dbs\<close> of the
  metadata save between its invocation and its return.\<close>

definition teardown_trace :: "trading_mode \<Rightarrow> event list \<Rightarrow> event list" where
  "teardown_trace m dbs =
     (case exchange_manager m of
        None \<Rightarrow> []
      | Some em \<Rightarrow>
          (if is_backtesting em then [SaveInvoked] @ dbs @ [SaveReturned] else [])
          @ map ProducerStop (producers m) @ map ConsumerStop (consumers m)
          @ [ExchangeManagerReleased])"

text \<open>Everything a call of \<open>save_backtesting_data\<close> does when it writes the metadata of
  bot \<open>b\<close>.\<close>

definition full_save_events :: "string \<Rightarrow> event list" where
  "full_save_events b =
     [RunDbResolved b, RunDbFlushed b, UserInputsRead b, TransactionsStored b, TradesStored b,
      WriterOpened b, MetadataComputed b, MetadataLogged b, MetadataWritten b]"

text \<open>The first exception raised inside the \<open>try\<close> block of \<open>save_backtesting_data\<close>,
  and whether the block gets as far as leaving the writer's scope.\<close>

definition write_fault :: "db_env \<Rightarrow> exn option" where
  "write_fault env =
     (case open_writer_raises env of
        Some e \<Rightarrow> Some e
      | None \<Rightarrow>
          (case get_backtesting_metadata_raises env of
             Some e \<Rightarrow> Some e
           | None \<Rightarrow>
               (case save_metadata_raises env of
                  Some e \<Rightarrow> Some e
                | None \<Rightarrow> close_writer_raises env)))"

definition reaches_writer_exit :: "db_env \<Rightarrow> bool" where
  "reaches_writer_exit env =
     (open_writer_raises env = None \<and> get_backtesting_metadata_raises env = None
      \<and> save_metadata_raises env = None)"

text \<open>\<open>y\<close> is \<open>x\<close> rounded to \<open>n\<close> decimal places: a multiple of \<open>10\<^sup>-\<^sup>n\<close> at most half
  a unit of the last place from \<open>x\<close>.\<close>

definition rounded_to :: "nat \<Rightarrow> rat \<Rightarrow> rat \<Rightarrow> bool" where
  "rounded_to n x y =
     (of_int \<lfloor>y * 10 ^ n\<rfloor> = y * 10 ^ n \<and> \<bar>y - x\<bar> * (2 * 10 ^ n) \<le> 1)"

text \<open>Collaborators that do not fail.\<close>

definition db_ok :: db_env where
  "db_ok = \<lparr>run_db_lookup_raises = None, flush_raises = None, get_user_inputs_raises = None,
     save_transactions_raises = None, save_trades_raises = None, open_writer_raises = None,
     get_backtesting_metadata_raises = None, save_metadata_raises = None,
     close_writer_raises = None\<rparr>"

definition stop_ok :: stop_env where
  "stop_ok = \<lparr>db = db_ok, producer_stop_raises = (\<lambda>_. None), consumer_stop_raises = (\<lambda>_. None)\<rparr>"

definition scope_ok :: scope_env where
  "scope_ok = \<lparr>enter_raises = None, exit_raises = None\<rparr>"

section \<open>Example inputs\<close>

text \<open>A process that has just started, holding 1000 USDT on the exchange; a mode in a
  backtesting context and the same mode trading live with signals enabled; a mode whose
  configuration has no entry for signals.\<close>

definition initial_world :: world where
  "initial_world =
     \<lparr>saved_run_metadata_db_by_bot_id = Map.empty, trace = [],
      exchange_state = [''USDT'' \<mapsto> 1000], builders = Map.empty, emitted = [], logged = []\<rparr>"

definition backtest_mode :: trading_mode where
  "backtest_mode =
     \<lparr>name = ''DailyTradingMode'',
      exchange_manager = Some \<lparr>bot_id = ''X'', exchange_name = ''binance'', is_backtesting = True\<rparr>,
      trading_config = Some Map.empty, producers = [1], consumers = [2],
      are_metadata_saved = False\<rparr>"

definition live_mode :: trading_mode where
  "live_mode =
     \<lparr>name = ''DailyTradingMode'',
      exchange_manager = Some \<lparr>bot_id = ''X'', exchange_name = ''binance'', is_backtesting = False\<rparr>,
      trading_config = Some [CONFIG_EMIT_TRADING_SIGNALS \<mapsto> CBool True], producers = [1],
      consumers = [2], are_metadata_saved = False\<rparr>"

definition unconfigured_mode :: trading_mode where
  "unconfigured_mode = live_mode\<lparr>trading_config := Some [OtherKey ''required_strategies'' \<mapsto> CStr ''s'']\<rparr>"

text \<open>Collaborators that fail: a producer whose \<open>stop\<close> raises, a metadata computation
  that raises, a writer whose scope cannot be left, a computation that is cancelled, a
  transport that fails when the bundle is sent.\<close>

definition db_close_fails :: db_env where
  "db_close_fails = db_ok\<lparr>close_writer_raises := Some (OtherError ''disk full'')\<rparr>"

definition db_cancelled :: db_env where
  "db_cancelled = db_ok\<lparr>get_backtesting_metadata_raises := Some CancelledError\<rparr>"


definition stop_producer_fails :: stop_env where
  "stop_producer_fails =
     stop_ok\<lparr>producer_stop_raises := (\<lambda>p. Some (OtherError ''producer''))\<rparr>"

definition db_compute_fails :: db_env where
  "db_compute_fails = db_ok\<lparr>get_backtesting_metadata_raises := Some (OtherError ''no trades'')\<rparr>"

text \<open>An order for 250 USDT, and two traders: one that fills orders and takes the
  quantity from the holdings, and one that places, cancels and edits nothing.\<close>

definition buy_order :: trade_order where
  "buy_order = \<lparr>order_id = ''o1'', symbol = ''BTC/USDT'', side = BUY, origin_quantity = 250\<rparr>"

definition spend :: "trade_order \<Rightarrow> exchange_state \<Rightarrow> exchange_state" where
  "spend order x = x(''USDT'' \<mapsto> (case x ''USDT'' of None \<Rightarrow> 0 | Some t \<Rightarrow> t - origin_quantity order))"

definition example_order_env :: order_env where
  "example_order_env =
     \<lparr>get_order_size_portfolio_percent =
        (\<lambda>x quantity s key. case x ''USDT'' of
           None \<Rightarrow> Raised (OtherError ''no funds'')
         | Some funds \<Rightarrow> Returned (quantity / funds * 100)),
      float_str = (\<lambda>p. if p = 25 then ''25.0'' else ''other''),
      percent_value = ''%'',
      trader_create_order = (\<lambda>order loaded params cb x. (Returned (Some order), spend order x)),
      trader_cancel_order = (\<lambda>order ignored x. (Returned True, x)),
      trader_edit_order = (\<lambda>order q p sp cp params x. (Returned True, x))\<rparr>"

definition rejecting_order_env :: order_env where
  "rejecting_order_env =
     example_order_env
       \<lparr>trader_create_order := (\<lambda>order loaded params cb x. (Returned None, x)),
        trader_cancel_order := (\<lambda>order ignored x. (Returned False, x)),
        trader_edit_order := (\<lambda>order q p sp cp params x. (Returned False, x))\<rparr>"

text \<open>The world inside a signal scope for BTC/USDT.\<close>

definition live_world :: world where
  "live_world = open_builder ''BTC/USDT'' (CStr ''DailyTradingMode'') initial_world"

text \<open>The results of a backtesting run.\<close>

definition example_run_data :: run_data where
  "example_run_data =
     \<lparr>optimization_campaign_name = ''default_campaign'', backtesting_id = ''1'',
      trading_pairs = [''BTC/USDT''], profitability = 123456789123 / 10 ^ 9,
      profitability_percent = 123456 / 10 ^ 4,
      origin_portfolio_str = ''start'', end_portfolio_str = ''end'',
      required_time_frames = [''1h''], has_future_contracts = False,
      pair_current_leverage = (\<lambda>s. 1),
      trade_history = replicate 10 \<lparr>trade_status = FILLED, trade_side = BUY\<rparr>
                        @ [\<lparr>trade_status = FILLED, trade_side = SELL\<rparr>],
      win_rate = 6 / 10, draw_down = 10 / 3, r_sq_end_balance = None,
      r_sq_max_balance = Some (1 / 2), backtesting_starting_time = 0,
      backtesting_ending_time = 86400, backtesting_duration = 12345 / 10 ^ 4,
      start_time = 1700000000, backtesting_data_files = [''binance.data'']\<rparr>"

section \<open>Effects on the saved flag and on the written metadata\<close>

lemma saved_flag_emit [simp]: "saved_flag (emit e w) b = saved_flag w b"
  by (simp add: saved_flag_def emit_def)

lemma successful_writes_emit [simp]:
  "successful_writes b (emit e w) = successful_writes b w + (if e = MetadataWritten b then 1 else 0)"
  by (simp add: successful_writes_def emit_def)

lemma saved_flag_set [simp]:
  "saved_flag (set_saved_flag b' v w) b = (if b = b' then v else saved_flag w b)"
  by (simp add: saved_flag_def set_saved_flag_def)

lemma successful_writes_set [simp]:
  "successful_writes b (set_saved_flag b' v w) = successful_writes b w"
  by (simp add: successful_writes_def set_saved_flag_def)

lemma run_steps_frame:
  "run_steps steps w = (r, w') \<Longrightarrow> MetadataWritten b \<notin> snd ` set steps \<Longrightarrow>
     saved_flag w' b = saved_flag w b \<and> successful_writes b w' = successful_writes b w"
proof (induction steps w rule: run_steps.induct)
  case (1 w)
  then show ?case by simp
next
  case (2 ev rest w)
  then show ?case by auto
next
  case (3 e ev rest w)
  then show ?case by simp
qed

lemma stop_each_frame:
  "stop_each raises ev ps w = (r, w') \<Longrightarrow> (\<And>p. ev p \<noteq> MetadataWritten b) \<Longrightarrow>
     saved_flag w' b = saved_flag w b \<and> successful_writes b w' = successful_writes b w"
proof (induction ps arbitrary: w)
  case Nil
  then show ?case by simp
next
  case (Cons p ps)
  then show ?case by (cases "raises p") auto
qed

lemma prepare_run_data_frame:
  "prepare_run_data env b' w = (r, w') \<Longrightarrow>
     saved_flag w' b = saved_flag w b \<and> successful_writes b w' = successful_writes b w"
  unfolding prepare_run_data_def by (erule run_steps_frame) auto

lemma write_metadata_effect:
  assumes "write_metadata env b' m w = (r, m', w')"
  shows "saved_flag w' b = saved_flag w b
    \<and> successful_writes b w' = successful_writes b w + (if r = Returned () \<and> b' = b then 1 else 0)"
  using assms unfolding write_metadata_def
  by (auto split: prod.splits outcome.splits option.splits
      dest!: run_steps_frame [where b = b])

lemma save_backtesting_data_flag_set:
  assumes "save_backtesting_data env m w = (r, m', w')" and "saved_flag w b"
  shows "saved_flag w' b \<and> successful_writes b w' = successful_writes b w"
  using assms unfolding save_backtesting_data_def
  by (auto split: option.splits if_splits prod.splits outcome.splits
      dest!: prepare_run_data_frame [where b = b] write_metadata_effect [where b = b])

lemma save_backtesting_data_writes:
  assumes "save_backtesting_data env m w = (r, m', w')"
  shows "successful_writes b w \<le> successful_writes b w'
       \<and> successful_writes b w' \<le> successful_writes b w + 1
       \<and> (successful_writes b w < successful_writes b w' \<longrightarrow> saved_flag w' b)"
  using assms unfolding save_backtesting_data_def
  by (auto split: option.splits if_splits prod.splits outcome.splits
      dest!: prepare_run_data_frame [where b = b] write_metadata_effect [where b = b])

lemma stop_producers_and_consumers_frame:
  assumes "stop_producers_and_consumers env m w = (r, m', w')"
  shows "saved_flag w' b = saved_flag w b \<and> successful_writes b w' = successful_writes b w"
proof -
  obtain r2 w2 where p: "stop_each (producer_stop_raises env) ProducerStop (producers m) w = (r2, w2)"
    by (cases "stop_each (producer_stop_raises env) ProducerStop (producers m) w")
  obtain r3 w3 where c: "stop_each (consumer_stop_raises env) ConsumerStop (consumers m) w2 = (r3, w3)"
    by (cases "stop_each (consumer_stop_raises env) ConsumerStop (consumers m) w2")
  have f2: "saved_flag w2 b = saved_flag w b \<and> successful_writes b w2 = successful_writes b w"
    by (rule stop_each_frame [OF p]) simp
  have f3: "saved_flag w3 b = saved_flag w2 b \<and> successful_writes b w3 = successful_writes b w2"
    by (rule stop_each_frame [OF c]) simp
  from assms p c f2 f3 show ?thesis
    unfolding stop_producers_and_consumers_def
    by (cases r2; cases r3) auto
qed

lemma stop_flag_set:
  assumes "stop env m w = (r, m', w')" and "saved_flag w b"
  shows "saved_flag w' b \<and> successful_writes b w' = successful_writes b w"
proof (cases "exchange_manager m")
  case None
  with assms show ?thesis by (simp add: stop_def)
next
  case (Some em)
  show ?thesis
  proof (cases "is_backtesting em")
    case False
    with Some assms(1) have "stop_producers_and_consumers env m w = (r, m', w')"
      by (simp add: stop_def)
    from stop_producers_and_consumers_frame [OF this, of b] assms(2) show ?thesis by simp
  next
    case True
    obtain r1 m1 w1 where sv: "save_backtesting_data (db env) m (emit SaveInvoked w) = (r1, m1, w1)"
      by (cases "save_backtesting_data (db env) m (emit SaveInvoked w)")
    from assms(2) have "saved_flag (emit SaveInvoked w) b" by simp
    from save_backtesting_data_flag_set [OF sv this]
    have k: "saved_flag w1 b" "successful_writes b w1 = successful_writes b w" by simp_all
    show ?thesis
    proof (cases r1)
      case (Raised e)
      with Some True sv assms(1) have "w' = w1" by (simp add: stop_def)
      with k show ?thesis by simp
    next
      case (Returned u)
      with Some True sv assms(1)
      have "stop_producers_and_consumers env m1 (emit SaveReturned w1) = (r, m', w')"
        by (simp add: stop_def)
      from stop_producers_and_consumers_frame [OF this, of b] k show ?thesis by simp
    qed
  qed
qed

lemma stop_writes:
  assumes "stop env m w = (r, m', w')"
  shows "successful_writes b w \<le> successful_writes b w'
       \<and> successful_writes b w' \<le> successful_writes b w + 1
       \<and> (successful_writes b w < successful_writes b w' \<longrightarrow> saved_flag w' b)"
proof (cases "exchange_manager m")
  case None
  with assms show ?thesis by (simp add: stop_def)
next
  case (Some em)
  show ?thesis
  proof (cases "is_backtesting em")
    case False
    with Some assms(1) have "stop_producers_and_consumers env m w = (r, m', w')"
      by (simp add: stop_def)
    from stop_producers_and_consumers_frame [OF this, of b] show ?thesis by simp
  next
    case True
    obtain r1 m1 w1 where sv: "save_backtesting_data (db env) m (emit SaveInvoked w) = (r1, m1, w1)"
      by (cases "save_backtesting_data (db env) m (emit SaveInvoked w)")
    from save_backtesting_data_writes [OF sv, of b]
    have k: "successful_writes b w \<le> successful_writes b w1"
      "successful_writes b w1 \<le> successful_writes b w + 1"
      "successful_writes b w < successful_writes b w1 \<longrightarrow> saved_flag w1 b" by simp_all
    show ?thesis
    proof (cases r1)
      case (Raised e)
      with Some True sv assms(1) have "w' = w1" by (simp add: stop_def)
      with k show ?thesis by simp
    next
      case (Returned u)
      with Some True sv assms(1)
      have "stop_producers_and_consumers env m1 (emit SaveReturned w1) = (r, m', w')"
        by (simp add: stop_def)
      from stop_producers_and_consumers_frame [OF this, of b] k show ?thesis by simp
    qed
  qed
qed

lemma run_stops_flag_set:
  "run_stops calls (ms, w) = (ms', w') \<Longrightarrow> saved_flag w b \<Longrightarrow>
     saved_flag w' b \<and> successful_writes b w' = successful_writes b w"
proof (induction calls arbitrary: ms w)
  case Nil
  then show ?case by simp
next
  case (Cons c calls)
  obtain i env where c: "c = (i, env)" by (cases c)
  show ?case
  proof (cases "i < length ms")
    case False
    with Cons c show ?thesis by simp
  next
    case True
    obtain r m1 w1 where st: "stop env (ms ! i) w = (r, m1, w1)" by (cases "stop env (ms ! i) w")
    from stop_flag_set [OF st Cons.prems(2)]
    have 1: "saved_flag w1 b" and 2: "successful_writes b w1 = successful_writes b w" by simp_all
    from Cons.prems(1) c True st have "run_stops calls (ms[i := m1], w1) = (ms', w')" by simp
    from Cons.IH [OF this 1] 2 show ?thesis by simp
  qed
qed

text \<open>
  Claim C1. For every sequence of \<open>stop()\<close> calls on the instances of a process, with
  whatever the collaborators do during each call, and for every bot-run identifier \<open>b\<close>:
  the backtesting metadata of \<open>b\<close> is successfully written at most once during the
  sequence; if it was written, the saved flag of \<open>b\<close> reads \<open>True\<close> afterwards; and
  once the flag reads \<open>True\<close>, no later call writes the metadata of \<open>b\<close> and the flag
  stays \<open>True\<close>.
\<close>

theorem metadata_written_at_most_once:
  assumes "run_stops calls (ms, w) = (ms', w')"
  shows "successful_writes b w' \<le> successful_writes b w + 1
       \<and> (successful_writes b w < successful_writes b w' \<longrightarrow> saved_flag w' b)
       \<and> (saved_flag w b \<longrightarrow> saved_flag w' b \<and> successful_writes b w' = successful_writes b w)"
proof -
  have main: "successful_writes b w' \<le> successful_writes b w + 1
       \<and> (successful_writes b w < successful_writes b w' \<longrightarrow> saved_flag w' b)"
    using assms
  proof (induction calls arbitrary: ms w)
    case Nil
    then show ?case by simp
  next
    case (Cons c calls)
    obtain i env where c: "c = (i, env)" by (cases c)
    show ?case
    proof (cases "i < length ms")
      case False
      with Cons c show ?thesis by simp
    next
      case True
      obtain r m1 w1 where st: "stop env (ms ! i) w = (r, m1, w1)"
        by (cases "stop env (ms ! i) w")
      from Cons.prems c True st have rest: "run_stops calls (ms[i := m1], w1) = (ms', w')"
        by simp
      note step = stop_writes [OF st, of b]
      show ?thesis
      proof (cases "successful_writes b w < successful_writes b w1")
        case True
        with step have "saved_flag w1 b" by simp
        from run_stops_flag_set [OF rest this] step show ?thesis by simp
      next
        case False
        with step have "successful_writes b w1 = successful_writes b w" by simp
        with Cons.IH [OF rest] show ?thesis by simp
      qed
    qed
  qed
  from main run_stops_flag_set [OF assms] show ?thesis by blast
qed

lemmas eval_defs = stop_def stop_producers_and_consumers_def save_backtesting_data_def
  prepare_run_data_def write_metadata_def emit_def set_saved_flag_def saved_flag_def
  successful_writes_def db_ok_def stop_ok_def initial_world_def backtest_mode_def

theorem metadata_written_at_most_once_witness:
  "successful_writes ''X'' initial_world
     < successful_writes ''X''
         (snd (run_stops [(0, stop_ok), (1, stop_ok)] ([backtest_mode, backtest_mode], initial_world)))
   \<and> successful_writes ''X''
         (snd (run_stops [(0, stop_ok), (1, stop_ok)] ([backtest_mode, backtest_mode], initial_world))) \<le> 1
   \<and> saved_flag
         (snd (run_stops [(0, stop_ok), (1, stop_ok)] ([backtest_mode, backtest_mode], initial_world))) ''X''
   \<and> saved_flag (set_saved_flag ''X'' True initial_world) ''X''
   \<and> successful_writes ''X''
         (snd (run_stops [(0, stop_ok)] ([backtest_mode], set_saved_flag ''X'' True initial_world)))
       = 0"
proof -
  let ?s = "run_stops [(0, stop_ok), (1, stop_ok)] ([backtest_mode, backtest_mode], initial_world)"
  let ?t = "run_stops [(0, stop_ok)] ([backtest_mode], set_saved_flag ''X'' True initial_world)"
  have ev: "successful_writes ''X'' (snd ?s) = 1"
    by (simp add: eval_defs)
  have z: "successful_writes ''X'' initial_world = 0"
    by (simp add: eval_defs)
  have "run_stops [(0, stop_ok), (1, stop_ok)] ([backtest_mode, backtest_mode], initial_world)
          = (fst ?s, snd ?s)" by simp
  from metadata_written_at_most_once [OF this, of "''X''"] ev z
  have 1: "successful_writes ''X'' initial_world < successful_writes ''X'' (snd ?s)
      \<and> successful_writes ''X'' (snd ?s) \<le> 1 \<and> saved_flag (snd ?s) ''X''" by simp
  have f: "saved_flag (set_saved_flag ''X'' True initial_world) ''X''" by simp
  have "run_stops [(0, stop_ok)] ([backtest_mode], set_saved_flag ''X'' True initial_world)
          = (fst ?t, snd ?t)" by simp
  from metadata_written_at_most_once [OF this, of "''X''"] f z
  have 2: "successful_writes ''X'' (snd ?t) = 0" by simp
  from 1 2 f show ?thesis by simp
qed

section \<open>The order of the teardown and the failure of a write\<close>

lemma run_steps_trace:
  "run_steps steps w = (r, w') \<Longrightarrow>
     \<exists>evs. trace w' = trace w @ evs \<and> set evs \<subseteq> snd ` set steps"
proof (induction steps w rule: run_steps.induct)
  case (1 w)
  then show ?case by simp
next
  case (2 ev rest w)
  then obtain evs where "trace w' = trace (emit ev w) @ evs" "set evs \<subseteq> snd ` set rest"
    by auto
  then have "trace w' = trace w @ (ev # evs) \<and> set (ev # evs) \<subseteq> snd ` set ((None, ev) # rest)"
    by (auto simp: emit_def)
  then show ?case by blast
next
  case (3 e ev rest w)
  then show ?case by simp
qed

lemma prepare_run_data_trace:
  assumes "prepare_run_data env b w = (r, w')"
  shows "\<exists>evs. trace w' = trace w @ evs \<and> (\<forall>e\<in>set evs. \<not> is_teardown_step e)"
proof -
  from run_steps_trace [OF assms [unfolded prepare_run_data_def]]
  obtain evs where "trace w' = trace w @ evs"
    "set evs \<subseteq> {RunDbResolved b, RunDbFlushed b, UserInputsRead b, TransactionsStored b, TradesStored b}"
    by auto
  then have "trace w' = trace w @ evs \<and> (\<forall>e\<in>set evs. \<not> is_teardown_step e)" by auto
  then show ?thesis by blast
qed

lemma write_metadata_trace:
  assumes "write_metadata env b m w = (r, m', w')"
  shows "\<exists>evs. trace w' = trace w @ evs \<and> (\<forall>e\<in>set evs. \<not> is_teardown_step e)"
proof -
  obtain r1 w1 where rs: "run_steps
        [(open_writer_raises env, WriterOpened b),
         (get_backtesting_metadata_raises env, MetadataComputed b),
         (save_metadata_raises env, MetadataLogged b)] w = (r1, w1)"
    by (cases "run_steps
        [(open_writer_raises env, WriterOpened b),
         (get_backtesting_metadata_raises env, MetadataComputed b),
         (save_metadata_raises env, MetadataLogged b)] w")
  from run_steps_trace [OF rs]
  obtain evs where e: "trace w1 = trace w @ evs"
    "set evs \<subseteq> {WriterOpened b, MetadataComputed b, MetadataLogged b}" by auto
  then have ne: "\<forall>e\<in>set evs. \<not> is_teardown_step e" by auto
  from assms rs have "w' = w1 \<or> w' = emit (MetadataWritten b) w1"
    unfolding write_metadata_def by (auto split: outcome.splits option.splits)
  then show ?thesis
  proof
    assume "w' = w1"
    with e ne show ?thesis by blast
  next
    assume "w' = emit (MetadataWritten b) w1"
    with e have "trace w' = trace w @ (evs @ [MetadataWritten b])" by (simp add: emit_def)
    moreover from ne have "\<forall>e\<in>set (evs @ [MetadataWritten b]). \<not> is_teardown_step e" by simp
    ultimately show ?thesis by blast
  qed
qed

lemma trace_set_saved_flag [simp]: "trace (set_saved_flag b v w) = trace w"
  by (simp add: set_saved_flag_def)

lemma save_backtesting_data_trace:
  assumes "save_backtesting_data env m w = (r, m', w')"
  shows "\<exists>evs. trace w' = trace w @ evs \<and> (\<forall>e\<in>set evs. \<not> is_teardown_step e)"
proof (cases "exchange_manager m")
  case None
  with assms show ?thesis by (simp add: save_backtesting_data_def)
next
  case (Some em)
  show ?thesis
  proof (cases "are_metadata_saved m")
    case True
    with Some assms show ?thesis by (simp add: save_backtesting_data_def)
  next
    case False
    obtain r1 w1 where p: "prepare_run_data env (bot_id em) w = (r1, w1)"
      by (cases "prepare_run_data env (bot_id em) w")
    from prepare_run_data_trace [OF p]
    obtain evs1 where e1: "trace w1 = trace w @ evs1" "\<forall>e\<in>set evs1. \<not> is_teardown_step e"
      by blast
    show ?thesis
    proof (cases "r1 = Returned () \<and> \<not> saved_flag w1 (bot_id em)")
      case False
      with Some \<open>\<not> are_metadata_saved m\<close> p assms have "w' = w1"
        by (cases r1) (auto simp: save_backtesting_data_def)
      with e1 show ?thesis by blast
    next
      case True
      obtain r2 m2 w2 where wm:
        "write_metadata env (bot_id em) m (set_saved_flag (bot_id em) True w1) = (r2, m2, w2)"
        by (cases "write_metadata env (bot_id em) m (set_saved_flag (bot_id em) True w1)")
      from write_metadata_trace [OF wm]
      obtain evs2 where e2: "trace w2 = trace w1 @ evs2" "\<forall>e\<in>set evs2. \<not> is_teardown_step e"
        by auto
      from Some \<open>\<not> are_metadata_saved m\<close> p True wm assms have "trace w' = trace w2"
        by (cases r2) (auto simp: save_backtesting_data_def split: if_splits)
      with e1 e2 have "trace w' = trace w @ (evs1 @ evs2)
          \<and> (\<forall>e\<in>set (evs1 @ evs2). \<not> is_teardown_step e)" by auto
      then show ?thesis by blast
    qed
  qed
qed

lemma write_metadata_mode:
  assumes "write_metadata env b m w = (r, m', w')"
  shows "m' = m \<or> m' = m\<lparr>are_metadata_saved := True\<rparr>"
proof -
  obtain r1 w1 where rs: "run_steps
        [(open_writer_raises env, WriterOpened b),
         (get_backtesting_metadata_raises env, MetadataComputed b),
         (save_metadata_raises env, MetadataLogged b)] w = (r1, w1)"
    by (cases "run_steps
        [(open_writer_raises env, WriterOpened b),
         (get_backtesting_metadata_raises env, MetadataComputed b),
         (save_metadata_raises env, MetadataLogged b)] w")
  with assms show ?thesis
    unfolding write_metadata_def
    by (cases r1; cases "close_writer_raises env") auto
qed

lemma save_backtesting_data_mode:
  assumes "save_backtesting_data env m w = (r, m', w')"
  shows "m' = m \<or> m' = m\<lparr>are_metadata_saved := True\<rparr>"
proof (cases "exchange_manager m")
  case None
  with assms show ?thesis by (simp add: save_backtesting_data_def)
next
  case (Some em)
  obtain r1 w1 where p: "prepare_run_data env (bot_id em) w = (r1, w1)"
    by (cases "prepare_run_data env (bot_id em) w")
  obtain r2 m2 w2 where wm:
    "write_metadata env (bot_id em) m (set_saved_flag (bot_id em) True w1) = (r2, m2, w2)"
    by (cases "write_metadata env (bot_id em) m (set_saved_flag (bot_id em) True w1)")
  from assms Some p wm have "m' = m \<or> m' = m2"
    unfolding save_backtesting_data_def
    by (cases r1; cases r2) (auto split: if_splits)
  with write_metadata_mode [OF wm] show ?thesis by auto
qed

lemma stop_each_trace:
  "stop_each raises ev ps w = (r, w') \<Longrightarrow>
     \<exists>qs. trace w' = trace w @ map ev qs \<and> prefix qs ps \<and> (r = Returned () \<longrightarrow> qs = ps)"
proof (induction ps arbitrary: w)
  case Nil
  then show ?case by simp
next
  case (Cons p ps)
  show ?case
  proof (cases "raises p")
    case (Some e)
    with Cons.prems have "trace w' = trace w @ map ev [p] \<and> prefix [p] (p # ps)
        \<and> (r = Returned () \<longrightarrow> [p] = p # ps)"
      by (auto simp: emit_def)
    then show ?thesis by blast
  next
    case None
    with Cons.prems have "stop_each raises ev ps (emit (ev p) w) = (r, w')" by simp
    from Cons.IH [OF this] obtain qs where
      "trace w' = trace (emit (ev p) w) @ map ev qs" "prefix qs ps" "r = Returned () \<longrightarrow> qs = ps"
      by blast
    then have "trace w' = trace w @ map ev (p # qs) \<and> prefix (p # qs) (p # ps)
        \<and> (r = Returned () \<longrightarrow> p # qs = p # ps)"
      by (simp add: emit_def)
    then show ?thesis by blast
  qed
qed

lemma stop_producers_and_consumers_trace:
  assumes "stop_producers_and_consumers env m w = (r, m', w')"
  shows "\<exists>evs. trace w' = trace w @ evs
      \<and> prefix evs (map ProducerStop (producers m) @ map ConsumerStop (consumers m)
                       @ [ExchangeManagerReleased])
      \<and> (r = Returned () \<longrightarrow>
            evs = map ProducerStop (producers m) @ map ConsumerStop (consumers m)
                    @ [ExchangeManagerReleased]
            \<and> m' = m\<lparr>exchange_manager := None\<rparr>)
      \<and> (r \<noteq> Returned () \<longrightarrow> ExchangeManagerReleased \<notin> set evs \<and> m' = m)"
proof -
  obtain r2 w2 where p: "stop_each (producer_stop_raises env) ProducerStop (producers m) w = (r2, w2)"
    by (cases "stop_each (producer_stop_raises env) ProducerStop (producers m) w")
  from stop_each_trace [OF p] obtain ps where
    ps: "trace w2 = trace w @ map ProducerStop ps" "prefix ps (producers m)"
      "r2 = Returned () \<longrightarrow> ps = producers m" by blast
  show ?thesis
  proof (cases r2)
    case (Raised e)
    with assms p have "r = Raised e" "m' = m" "w' = w2"
      by (simp_all add: stop_producers_and_consumers_def)
    moreover from ps(2) have "prefix (map ProducerStop ps)
        (map ProducerStop (producers m) @ map ConsumerStop (consumers m) @ [ExchangeManagerReleased])"
      by (meson map_mono_prefix prefix_append prefix_order.trans prefixI)
    moreover have "ExchangeManagerReleased \<notin> set (map ProducerStop ps)" by auto
    ultimately show ?thesis using ps(1) by blast
  next
    case (Returned u)
    with ps have full: "trace w2 = trace w @ map ProducerStop (producers m)" by simp
    obtain r3 w3 where c:
      "stop_each (consumer_stop_raises env) ConsumerStop (consumers m) w2 = (r3, w3)"
      by (cases "stop_each (consumer_stop_raises env) ConsumerStop (consumers m) w2")
    from stop_each_trace [OF c] obtain cs where
      cs: "trace w3 = trace w2 @ map ConsumerStop cs" "prefix cs (consumers m)"
        "r3 = Returned () \<longrightarrow> cs = consumers m" by blast
    show ?thesis
    proof (cases r3)
      case (Raised e)
      with Returned assms p c have "r = Raised e" "m' = m" "w' = w3"
        by (simp_all add: stop_producers_and_consumers_def)
      moreover from cs(1) full
      have "trace w3 = trace w @ (map ProducerStop (producers m) @ map ConsumerStop cs)" by simp
      moreover from cs(2) have "prefix (map ProducerStop (producers m) @ map ConsumerStop cs)
          (map ProducerStop (producers m) @ map ConsumerStop (consumers m)
             @ [ExchangeManagerReleased])"
        by (simp add: map_mono_prefix prefix_prefix)
      moreover have "ExchangeManagerReleased
          \<notin> set (map ProducerStop (producers m) @ map ConsumerStop cs)" by auto
      ultimately show ?thesis by blast
    next
      case r3: (Returned u3)
      with Returned assms p c have "r = Returned ()" "m' = m\<lparr>exchange_manager := None\<rparr>"
        "w' = emit ExchangeManagerReleased w3"
        by (simp_all add: stop_producers_and_consumers_def)
      moreover from cs r3 full
      have "trace (emit ExchangeManagerReleased w3) = trace w @
          (map ProducerStop (producers m) @ map ConsumerStop (consumers m)
             @ [ExchangeManagerReleased])"
        by (simp add: emit_def)
      ultimately show ?thesis by auto
    qed
  qed
qed

text \<open>
  Claim C7. Every execution of \<open>stop()\<close> adds to the trace a prefix of the fixed
  sequence \<open>teardown_trace\<close>: in a backtesting context the invocation of the metadata
  save, the save's own effects and its return; then the stop of every producer in list
  order; then the stop of every consumer in list order; then the release of the
  exchange manager. An execution that returns performs the whole sequence and leaves
  \<open>exchange_manager\<close> at \<open>None\<close>; an execution that raises has not released the
  exchange manager.
\<close>

theorem stop_teardown_order:
  assumes "stop env m w = (r, m', w')"
  shows "\<exists>evs dbs. trace w' = trace w @ evs
      \<and> (\<forall>e\<in>set dbs. \<not> is_teardown_step e)
      \<and> prefix evs (teardown_trace m dbs)
      \<and> (r = Returned () \<longrightarrow> evs = teardown_trace m dbs \<and> exchange_manager m' = None)
      \<and> (r \<noteq> Returned () \<longrightarrow>
            ExchangeManagerReleased \<notin> set evs \<and> exchange_manager m' = exchange_manager m)"
proof (cases "exchange_manager m")
  case None
  with assms have "r = Raised AttributeError" "m' = m" "w' = w" by (simp_all add: stop_def)
  with None have "trace w' = trace w @ []
      \<and> (\<forall>e\<in>set []. \<not> is_teardown_step e)
      \<and> prefix [] (teardown_trace m [])
      \<and> (r = Returned () \<longrightarrow> [] = teardown_trace m [] \<and> exchange_manager m' = None)
      \<and> (r \<noteq> Returned () \<longrightarrow>
            ExchangeManagerReleased \<notin> set [] \<and> exchange_manager m' = exchange_manager m)"
    by simp
  then show ?thesis by blast
next
  case (Some em)
  let ?tail = "\<lambda>m. map ProducerStop (producers m) @ map ConsumerStop (consumers m)
                 @ [ExchangeManagerReleased]"
  show ?thesis
  proof (cases "is_backtesting em")
    case False
    with Some assms have "stop_producers_and_consumers env m w = (r, m', w')"
      by (simp add: stop_def)
    from stop_producers_and_consumers_trace [OF this] obtain evs where
      "trace w' = trace w @ evs" "prefix evs (?tail m)"
      "r = Returned () \<longrightarrow> evs = ?tail m \<and> m' = m\<lparr>exchange_manager := None\<rparr>"
      "r \<noteq> Returned () \<longrightarrow> ExchangeManagerReleased \<notin> set evs \<and> m' = m" by blast
    with Some False have "trace w' = trace w @ evs
      \<and> (\<forall>e\<in>set []. \<not> is_teardown_step e)
      \<and> prefix evs (teardown_trace m [])
      \<and> (r = Returned () \<longrightarrow> evs = teardown_trace m [] \<and> exchange_manager m' = None)
      \<and> (r \<noteq> Returned () \<longrightarrow>
            ExchangeManagerReleased \<notin> set evs \<and> exchange_manager m' = exchange_manager m)"
      by (auto simp: teardown_trace_def)
    then show ?thesis by blast
  next
    case True
    obtain r1 m1 w1 where sv: "save_backtesting_data (db env) m (emit SaveInvoked w) = (r1, m1, w1)"
      by (cases "save_backtesting_data (db env) m (emit SaveInvoked w)")
    from save_backtesting_data_trace [OF sv] obtain dbs where
      dbs: "trace w1 = trace w @ SaveInvoked # dbs" "\<forall>e\<in>set dbs. \<not> is_teardown_step e"
      by (auto simp: emit_def)
    have m1: "exchange_manager m1 = exchange_manager m" "producers m1 = producers m"
      "consumers m1 = consumers m"
      using save_backtesting_data_mode [OF sv] by auto
    have notrel: "ExchangeManagerReleased \<notin> set (SaveInvoked # dbs)"
      using dbs(2) by auto
    show ?thesis
    proof (cases r1)
      case (Raised e)
      with Some True sv assms have "r = Raised e" "m' = m1" "w' = w1" by (simp_all add: stop_def)
      with Some True dbs m1 notrel have "trace w' = trace w @ (SaveInvoked # dbs)
        \<and> (\<forall>e\<in>set dbs. \<not> is_teardown_step e)
        \<and> prefix (SaveInvoked # dbs) (teardown_trace m dbs)
        \<and> (r = Returned () \<longrightarrow> SaveInvoked # dbs = teardown_trace m dbs \<and> exchange_manager m' = None)
        \<and> (r \<noteq> Returned () \<longrightarrow>
            ExchangeManagerReleased \<notin> set (SaveInvoked # dbs)
            \<and> exchange_manager m' = exchange_manager m)"
        by (simp add: teardown_trace_def)
      then show ?thesis by blast
    next
      case (Returned u)
      with Some True sv assms
      have "stop_producers_and_consumers env m1 (emit SaveReturned w1) = (r, m', w')"
        by (simp add: stop_def)
      from stop_producers_and_consumers_trace [OF this] m1 obtain evs where
        evs: "trace w' = trace w1 @ SaveReturned # evs" "prefix evs (?tail m)"
        "r = Returned () \<longrightarrow> evs = ?tail m \<and> m' = m1\<lparr>exchange_manager := None\<rparr>"
        "r \<noteq> Returned () \<longrightarrow> ExchangeManagerReleased \<notin> set evs \<and> m' = m1"
        by (auto simp: emit_def)
      with Some True dbs m1 notrel have "trace w' = trace w @ (SaveInvoked # dbs @ SaveReturned # evs)
        \<and> (\<forall>e\<in>set dbs. \<not> is_teardown_step e)
        \<and> prefix (SaveInvoked # dbs @ SaveReturned # evs) (teardown_trace m dbs)
        \<and> (r = Returned () \<longrightarrow> SaveInvoked # dbs @ SaveReturned # evs = teardown_trace m dbs
              \<and> exchange_manager m' = None)
        \<and> (r \<noteq> Returned () \<longrightarrow>
            ExchangeManagerReleased \<notin> set (SaveInvoked # dbs @ SaveReturned # evs)
            \<and> exchange_manager m' = exchange_manager m)"
        by (auto simp: teardown_trace_def)
      then show ?thesis by blast
    qed
  qed
qed

theorem stop_teardown_order_witness:
  "fst (stop stop_ok backtest_mode initial_world) = Returned ()
   \<and> (\<exists>dbs. (\<forall>e\<in>set dbs. \<not> is_teardown_step e)
          \<and> trace (snd (snd (stop stop_ok backtest_mode initial_world)))
              = trace initial_world @ teardown_trace backtest_mode dbs)
   \<and> exchange_manager (fst (snd (stop stop_ok backtest_mode initial_world))) = None
   \<and> fst (stop stop_producer_fails backtest_mode initial_world) \<noteq> Returned ()
   \<and> ExchangeManagerReleased
       \<notin> set (trace (snd (snd (stop stop_producer_fails backtest_mode initial_world))))
   \<and> exchange_manager (fst (snd (stop stop_producer_fails backtest_mode initial_world)))
       = exchange_manager backtest_mode"
proof -
  let ?s = "stop stop_ok backtest_mode initial_world"
  let ?f = "stop stop_producer_fails backtest_mode initial_world"
  have r: "fst ?s = Returned ()" by (simp add: eval_defs)
  have "stop stop_ok backtest_mode initial_world = (fst ?s, fst (snd ?s), snd (snd ?s))" by simp
  from stop_teardown_order [OF this] r
  have 1: "(\<exists>dbs. (\<forall>e\<in>set dbs. \<not> is_teardown_step e)
          \<and> trace (snd (snd ?s)) = trace initial_world @ teardown_trace backtest_mode dbs)
      \<and> exchange_manager (fst (snd ?s)) = None" by auto
  have rf: "fst ?f \<noteq> Returned ()" by (simp add: eval_defs stop_producer_fails_def)
  have t0: "trace initial_world = []" by (simp add: initial_world_def)
  have "stop stop_producer_fails backtest_mode initial_world
      = (fst ?f, fst (snd ?f), snd (snd ?f))" by simp
  from stop_teardown_order [OF this] rf t0
  have 2: "ExchangeManagerReleased \<notin> set (trace (snd (snd ?f)))
      \<and> exchange_manager (fst (snd ?f)) = exchange_manager backtest_mode" by auto
  from r 1 rf 2 show ?thesis by simp
qed

lemma stop_returned_releases:
  assumes "stop env m w = (Returned (), m', w')"
  shows "exchange_manager m' = None"
proof (cases "exchange_manager m")
  case None
  with assms show ?thesis by (simp add: stop_def)
next
  case (Some em)
  have rel: "\<And>m0 w0. stop_producers_and_consumers env m0 w0 = (Returned (), m', w')
      \<Longrightarrow> exchange_manager m' = None"
    using stop_producers_and_consumers_trace by fastforce
  show ?thesis
  proof (cases "is_backtesting em")
    case False
    with Some assms show ?thesis by (auto simp: stop_def intro: rel)
  next
    case True
    obtain r1 m1 w1 where sv: "save_backtesting_data (db env) m (emit SaveInvoked w) = (r1, m1, w1)"
      by (cases "save_backtesting_data (db env) m (emit SaveInvoked w)")
    with Some True assms show ?thesis by (cases r1) (auto simp: stop_def intro: rel)
  qed
qed

text \<open>
  Claim C9. After a \<open>stop()\<close> that returned, \<open>exchange_manager\<close> is \<open>None\<close>, and a
  call of \<open>save_backtesting_data\<close> on the stopped instance changes nothing. In general
  a call made while \<open>are_metadata_saved\<close> is \<open>True\<close> or \<open>exchange_manager\<close> is
  \<open>None\<close> returns with the instance, the saved flags and the trace unchanged.
\<close>

theorem save_backtesting_data_skipped:
  "(stop env m w = (Returned (), m', w') \<longrightarrow>
      exchange_manager m' = None
      \<and> save_backtesting_data denv m' w'' = (Returned (), m', w''))
   \<and> (are_metadata_saved m \<or> exchange_manager m = None \<longrightarrow>
      save_backtesting_data denv m w = (Returned (), m, w))"
proof -
  have skip: "\<And>m w. are_metadata_saved m \<or> exchange_manager m = None \<Longrightarrow>
      save_backtesting_data denv m w = (Returned (), m, w)"
    by (auto simp: save_backtesting_data_def split: option.splits)
  show ?thesis using stop_returned_releases [of env m w m' w'] skip by blast
qed

theorem save_backtesting_data_skipped_witness:
  "stop stop_ok backtest_mode initial_world
     = (Returned (), fst (snd (stop stop_ok backtest_mode initial_world)),
        snd (snd (stop stop_ok backtest_mode initial_world)))
   \<and> exchange_manager (fst (snd (stop stop_ok backtest_mode initial_world))) = None
   \<and> save_backtesting_data db_ok (fst (snd (stop stop_ok backtest_mode initial_world))) initial_world
       = (Returned (), fst (snd (stop stop_ok backtest_mode initial_world)), initial_world)
   \<and> are_metadata_saved (backtest_mode\<lparr>are_metadata_saved := True\<rparr>)
   \<and> save_backtesting_data db_ok (backtest_mode\<lparr>are_metadata_saved := True\<rparr>) initial_world
       = (Returned (), backtest_mode\<lparr>are_metadata_saved := True\<rparr>, initial_world)"
proof -
  let ?s = "stop stop_ok backtest_mode initial_world"
  have r: "fst ?s = Returned ()" by (simp add: eval_defs)
  then have st: "?s = (Returned (), fst (snd ?s), snd (snd ?s))"
    by (metis prod.collapse)
  from save_backtesting_data_skipped
         [of stop_ok backtest_mode initial_world "fst (snd ?s)" "snd (snd ?s)" db_ok initial_world] st
  have a: "exchange_manager (fst (snd ?s)) = None
      \<and> save_backtesting_data db_ok (fst (snd ?s)) initial_world
          = (Returned (), fst (snd ?s), initial_world)" by blast
  from save_backtesting_data_skipped
         [of stop_ok "backtest_mode\<lparr>are_metadata_saved := True\<rparr>" initial_world _ _ db_ok]
  have b: "save_backtesting_data db_ok (backtest_mode\<lparr>are_metadata_saved := True\<rparr>) initial_world
       = (Returned (), backtest_mode\<lparr>are_metadata_saved := True\<rparr>, initial_world)"
    by simp
  from st a b show ?thesis by simp
qed

lemma prepare_run_data_ok:
  assumes "run_db_lookup_raises env = None" "flush_raises env = None"
    "get_user_inputs_raises env = None" "save_transactions_raises env = None"
    "save_trades_raises env = None"
  shows "prepare_run_data env b w =
     (Returned (), emit (TradesStored b) (emit (TransactionsStored b) (emit (UserInputsRead b)
        (emit (RunDbFlushed b) (emit (RunDbResolved b) w)))))"
  using assms by (simp add: prepare_run_data_def)

lemma write_metadata_raises:
  assumes "write_fault env = Some e"
  shows "\<exists>m1 w1 evs. write_metadata env b m w = (Raised e, m1, w1)
           \<and> saved_run_metadata_db_by_bot_id w1 = saved_run_metadata_db_by_bot_id w
           \<and> trace w1 = trace w @ evs \<and> MetadataWritten b \<notin> set evs
           \<and> exchange_manager m1 = exchange_manager m
           \<and> (\<not> reaches_writer_exit env \<longrightarrow> m1 = m)"
  using assms
  by (cases "open_writer_raises env"; cases "get_backtesting_metadata_raises env";
      cases "save_metadata_raises env"; cases "close_writer_raises env")
     (simp_all add: write_metadata_def write_fault_def reaches_writer_exit_def emit_def)

lemma write_metadata_ok:
  "write_metadata db_ok b m w =
     (Returned (), m\<lparr>are_metadata_saved := True\<rparr>,
      emit (MetadataWritten b) (emit (MetadataLogged b) (emit (MetadataComputed b)
        (emit (WriterOpened b) w))))"
  by (simp add: write_metadata_def db_ok_def)

lemma save_backtesting_data_ok:
  assumes "exchange_manager m = Some em" "\<not> are_metadata_saved m" "\<not> saved_flag w (bot_id em)"
  shows "\<exists>w2. save_backtesting_data db_ok m w = (Returned (), m\<lparr>are_metadata_saved := True\<rparr>, w2)
      \<and> trace w2 = trace w @ full_save_events (bot_id em) \<and> saved_flag w2 (bot_id em)"
proof -
  have p: "prepare_run_data db_ok (bot_id em) w =
     (Returned (), emit (TradesStored (bot_id em)) (emit (TransactionsStored (bot_id em))
        (emit (UserInputsRead (bot_id em))
        (emit (RunDbFlushed (bot_id em)) (emit (RunDbResolved (bot_id em)) w)))))"
    by (rule prepare_run_data_ok) (simp_all add: db_ok_def)
  show ?thesis
    using assms
    by (simp add: save_backtesting_data_def p write_metadata_ok full_save_events_def)
       (simp add: emit_def set_saved_flag_def saved_flag_def)
qed

text \<open>
  Claim C2, as stated, fails at two inputs. When the writer's scope cannot be left,
  \<open>are_metadata_saved\<close> is already \<open>True\<close>: the flag is reset, but a following call on
  the instance skips everything. When the computation is cancelled, the handler for
  \<open>Exception\<close> does not run: the flag stays \<open>True\<close> and a following call writes
  nothing.
\<close>

theorem failed_write_retry_counterexample:
  "is_Exception (OtherError ''disk full'')
   \<and> fst (save_backtesting_data db_close_fails backtest_mode initial_world)
       = Raised (OtherError ''disk full'')
   \<and> trace (snd (snd (save_backtesting_data db_ok
         (fst (snd (save_backtesting_data db_close_fails backtest_mode initial_world)))
         (snd (snd (save_backtesting_data db_close_fails backtest_mode initial_world))))))
       = trace (snd (snd (save_backtesting_data db_close_fails backtest_mode initial_world)))
   \<and> successful_writes ''X'' (snd (snd (save_backtesting_data db_ok
         (fst (snd (save_backtesting_data db_close_fails backtest_mode initial_world)))
         (snd (snd (save_backtesting_data db_close_fails backtest_mode initial_world)))))) = 0
   \<and> fst (save_backtesting_data db_cancelled backtest_mode initial_world) = Raised CancelledError
   \<and> saved_flag (snd (snd (save_backtesting_data db_cancelled backtest_mode initial_world))) ''X''
   \<and> successful_writes ''X'' (snd (snd (save_backtesting_data db_ok backtest_mode
         (snd (snd (save_backtesting_data db_cancelled backtest_mode initial_world)))))) = 0"
  by (simp add: save_backtesting_data_def prepare_run_data_def write_metadata_def emit_def
      set_saved_flag_def saved_flag_def successful_writes_def db_ok_def db_close_fails_def
      db_cancelled_def backtest_mode_def initial_world_def)

text \<open>
  Claim C2, amended. Let a call of \<open>save_backtesting_data\<close> raise an \<open>Exception\<close>
  \<open>e\<close> inside its \<open>try\<close> block. Then the call raises \<open>e\<close>, nothing has been written and
  the saved flag of the bot-run identifier is \<open>False\<close>; \<open>stop()\<close> in a backtesting
  context raises \<open>e\<close> to its caller with the flag at \<open>False\<close> and the exchange manager
  kept. If \<open>e\<close> was raised before the writer's scope is left (opening the writer,
  computing the metadata, \<open>save_metadata\<close>), the instance is unchanged and a following
  call whose collaborators do not fail runs every step again, from the flush to the
  write.
\<close>

theorem failed_write_resets_saved_flag:
  assumes em: "exchange_manager m = Some em"
    and unsaved: "\<not> are_metadata_saved m"
    and flag: "\<not> saved_flag w (bot_id em)"
    and prep: "run_db_lookup_raises env = None" "flush_raises env = None"
      "get_user_inputs_raises env = None" "save_transactions_raises env = None"
      "save_trades_raises env = None"
    and fault: "write_fault env = Some e"
    and exc: "is_Exception e"
  shows "\<exists>m1 w1. save_backtesting_data env m w = (Raised e, m1, w1)
      \<and> saved_run_metadata_db_by_bot_id w1 (bot_id em) = Some False
      \<and> MetadataWritten (bot_id em) \<notin> set (drop (length (trace w)) (trace w1))
      \<and> (is_backtesting em \<and> db senv = env \<longrightarrow>
            (\<exists>m1' w1'. stop senv m w = (Raised e, m1', w1')
               \<and> \<not> saved_flag w1' (bot_id em)
               \<and> exchange_manager m1' = exchange_manager m))
      \<and> (\<not> reaches_writer_exit env \<longrightarrow>
            m1 = m
            \<and> (\<exists>w2. save_backtesting_data db_ok m w1
                   = (Returned (), m\<lparr>are_metadata_saved := True\<rparr>, w2)
                 \<and> trace w2 = trace w1 @ full_save_events (bot_id em)
                 \<and> saved_flag w2 (bot_id em)))"
proof -
  let ?b = "bot_id em"
  have first: "\<And>w. \<not> saved_flag w ?b \<Longrightarrow>
     \<exists>m1 w1. save_backtesting_data env m w = (Raised e, m1, w1)
      \<and> saved_run_metadata_db_by_bot_id w1 ?b = Some False
      \<and> MetadataWritten ?b \<notin> set (drop (length (trace w)) (trace w1))
      \<and> exchange_manager m1 = exchange_manager m
      \<and> (\<not> reaches_writer_exit env \<longrightarrow> m1 = m)"
  proof -
    fix w assume fl: "\<not> saved_flag w ?b"
    let ?wp = "emit (TradesStored ?b) (emit (TransactionsStored ?b) (emit (UserInputsRead ?b)
        (emit (RunDbFlushed ?b) (emit (RunDbResolved ?b) w))))"
    have p: "prepare_run_data env ?b w = (Returned (), ?wp)"
      by (rule prepare_run_data_ok [OF prep])
    from write_metadata_raises [OF fault, of ?b m "set_saved_flag ?b True ?wp"]
    obtain m1 w1 evs where w1:
      "write_metadata env ?b m (set_saved_flag ?b True ?wp) = (Raised e, m1, w1)"
      "trace w1 = trace (set_saved_flag ?b True ?wp) @ evs" "MetadataWritten ?b \<notin> set evs"
      "exchange_manager m1 = exchange_manager m" "\<not> reaches_writer_exit env \<longrightarrow> m1 = m"
      by blast
    from w1(2,3) have nw: "MetadataWritten ?b
        \<notin> set (drop (length (trace w)) (trace (set_saved_flag ?b False w1)))"
      by (simp add: emit_def)
    have "save_backtesting_data env m w = (Raised e, m1, set_saved_flag ?b False w1)"
      using em unsaved fl exc by (simp add: save_backtesting_data_def p w1(1))
    moreover have "saved_run_metadata_db_by_bot_id (set_saved_flag ?b False w1) ?b = Some False"
      by (simp add: set_saved_flag_def)
    ultimately show "\<exists>m1 w1. save_backtesting_data env m w = (Raised e, m1, w1)
      \<and> saved_run_metadata_db_by_bot_id w1 ?b = Some False
      \<and> MetadataWritten ?b \<notin> set (drop (length (trace w)) (trace w1))
      \<and> exchange_manager m1 = exchange_manager m
      \<and> (\<not> reaches_writer_exit env \<longrightarrow> m1 = m)"
      using nw w1(4,5) by blast
  qed
  from first [OF flag] obtain m1 w1 where w1:
    "save_backtesting_data env m w = (Raised e, m1, w1)"
    "saved_run_metadata_db_by_bot_id w1 ?b = Some False"
    "MetadataWritten ?b \<notin> set (drop (length (trace w)) (trace w1))"
    "\<not> reaches_writer_exit env \<longrightarrow> m1 = m" by blast
  from w1(2) have nf: "\<not> saved_flag w1 ?b" by (simp add: saved_flag_def)
  have retry: "\<exists>w2. save_backtesting_data db_ok m w1
                 = (Returned (), m\<lparr>are_metadata_saved := True\<rparr>, w2)
            \<and> trace w2 = trace w1 @ full_save_events ?b
            \<and> saved_flag w2 ?b"
    by (rule save_backtesting_data_ok [OF em unsaved nf])
  have stp: "is_backtesting em \<and> db senv = env \<longrightarrow>
            (\<exists>m1' w1'. stop senv m w = (Raised e, m1', w1')
               \<and> \<not> saved_flag w1' ?b \<and> exchange_manager m1' = exchange_manager m)"
  proof
    assume a: "is_backtesting em \<and> db senv = env"
    from flag have "\<not> saved_flag (emit SaveInvoked w) ?b" by simp
    from first [OF this] obtain m1' w1' where
      "save_backtesting_data env m (emit SaveInvoked w) = (Raised e, m1', w1')"
      "saved_run_metadata_db_by_bot_id w1' ?b = Some False"
      "exchange_manager m1' = exchange_manager m" by blast
    with a em have "stop senv m w = (Raised e, m1', w1') \<and> \<not> saved_flag w1' ?b
        \<and> exchange_manager m1' = exchange_manager m"
      by (simp add: stop_def saved_flag_def)
    then show "\<exists>m1' w1'. stop senv m w = (Raised e, m1', w1')
               \<and> \<not> saved_flag w1' ?b \<and> exchange_manager m1' = exchange_manager m" by blast
  qed
  from w1 retry stp show ?thesis by blast
qed

theorem failed_write_resets_saved_flag_witness:
  "(\<exists>w1. save_backtesting_data db_compute_fails backtest_mode initial_world
            = (Raised (OtherError ''no trades''), backtest_mode, w1)
      \<and> saved_run_metadata_db_by_bot_id w1 ''X'' = Some False
      \<and> (\<exists>w2. save_backtesting_data db_ok backtest_mode w1
                 = (Returned (), backtest_mode\<lparr>are_metadata_saved := True\<rparr>, w2)
            \<and> trace w2 = trace w1 @ full_save_events ''X''
            \<and> saved_flag w2 ''X''))
   \<and> (\<exists>m1' w1'. stop (stop_ok\<lparr>db := db_compute_fails\<rparr>) backtest_mode initial_world
            = (Raised (OtherError ''no trades''), m1', w1')
      \<and> \<not> saved_flag w1' ''X'')
   \<and> (\<exists>m1 w1. save_backtesting_data db_close_fails backtest_mode initial_world
            = (Raised (OtherError ''disk full''), m1, w1)
      \<and> saved_run_metadata_db_by_bot_id w1 ''X'' = Some False)"
proof -
  let ?em = "\<lparr>bot_id = ''X'', exchange_name = ''binance'', is_backtesting = True\<rparr>"
  have a: "(\<exists>w1. save_backtesting_data db_compute_fails backtest_mode initial_world
            = (Raised (OtherError ''no trades''), backtest_mode, w1)
      \<and> saved_run_metadata_db_by_bot_id w1 ''X'' = Some False
      \<and> (\<exists>w2. save_backtesting_data db_ok backtest_mode w1
                 = (Returned (), backtest_mode\<lparr>are_metadata_saved := True\<rparr>, w2)
            \<and> trace w2 = trace w1 @ full_save_events ''X''
            \<and> saved_flag w2 ''X''))
   \<and> (\<exists>m1' w1'. stop (stop_ok\<lparr>db := db_compute_fails\<rparr>) backtest_mode initial_world
            = (Raised (OtherError ''no trades''), m1', w1')
      \<and> \<not> saved_flag w1' ''X'')"
    using failed_write_resets_saved_flag
      [where m = backtest_mode and em = ?em and w = initial_world and env = db_compute_fails
         and e = "OtherError ''no trades''" and senv = "stop_ok\<lparr>db := db_compute_fails\<rparr>"]
    by (simp add: backtest_mode_def initial_world_def db_compute_fails_def db_ok_def
        saved_flag_def write_fault_def reaches_writer_exit_def) blast
  have b: "\<exists>m1 w1. save_backtesting_data db_close_fails backtest_mode initial_world
            = (Raised (OtherError ''disk full''), m1, w1)
      \<and> saved_run_metadata_db_by_bot_id w1 ''X'' = Some False"
    using failed_write_resets_saved_flag
      [where m = backtest_mode and em = ?em and w = initial_world and env = db_close_fails
         and e = "OtherError ''disk full''" and senv = stop_ok]
    by (simp add: backtest_mode_def initial_world_def db_close_fails_def db_ok_def
        saved_flag_def write_fault_def reaches_writer_exit_def) blast
  from a b show ?thesis by blast
qed

section \<open>Orders and their signals\<close>

lemma order_pf_percent_emitting:
  assumes "should_emit_trading_signal m = Returned v" "truthy v"
    "get_order_size_portfolio_percent env (exchange_state w) (origin_quantity order) (side order)
       (symbol order) = Returned p"
  shows "order_pf_percent m env order w = Returned (float_str env p @ percent_value env)"
  using assms by (simp add: order_pf_percent_def)

lemma order_pf_percent_silent:
  assumes "should_emit_trading_signal m = Returned v" "\<not> truthy v"
  shows "order_pf_percent m env order w = Returned (''0'' @ percent_value env)"
  using assms by (simp add: order_pf_percent_def)

text \<open>
  Claim C3. Let \<open>create_order\<close> reach the trader, and let the trader return. If the
  trader returns \<open>None\<close>, no record is added to any builder. If it returns an order
  and signal emission is enabled, exactly one \<open>CreatedOrder\<close> record is appended to the
  builder that is live for the order's symbol, and its target amount is the percent of
  portfolio computed from the exchange's state before the trader was called (\<open>w\<close>, not
  the state \<open>x\<close> that the trader leaves). If emission is disabled no record is added. In
  each case the trader's result is returned unchanged.
\<close>

theorem create_order_signal:
  assumes em: "exchange_manager m = Some em"
    and emit: "should_emit_trading_signal m = Returned v"
    and pct: "truthy v \<longrightarrow>
       get_order_size_portfolio_percent env (exchange_state w) (origin_quantity order)
         (side order) (symbol order) = Returned p"
    and trader: "trader_create_order env order loaded params cb (exchange_state w)
       = (Returned created, x)"
  shows "(created = None \<longrightarrow>
            create_order m env order loaded params cb w
              = (Returned None, w\<lparr>exchange_state := x\<rparr>))
       \<and> (\<forall>co b. created = Some co \<and> truthy v \<and> builders w (symbol order) = Some b \<longrightarrow>
            create_order m env order loaded params cb w
              = (Returned (Some co),
                 w\<lparr>exchange_state := x,
                   builders := (builders w)(symbol order \<mapsto>
                     b\<lparr>records := records b
                          @ [CreatedOrder co em (float_str env p @ percent_value env)]\<rparr>)\<rparr>))
       \<and> (\<forall>co. created = Some co \<and> \<not> truthy v \<longrightarrow>
            create_order m env order loaded params cb w
              = (Returned (Some co), w\<lparr>exchange_state := x\<rparr>))"
proof (cases "truthy v")
  case True
  with pct have "order_pf_percent m env order w = Returned (float_str env p @ percent_value env)"
    using emit by (simp add: order_pf_percent_emitting)
  with True em emit trader show ?thesis
    by (auto simp: create_order_def add_record_def)
next
  case False
  with emit have "order_pf_percent m env order w = Returned (''0'' @ percent_value env)"
    by (rule order_pf_percent_silent)
  with False em emit trader show ?thesis
    by (auto simp: create_order_def)
qed

text \<open>
  Claim C5. When the trader's \<open>cancel_order\<close> (respectively \<open>edit_order\<close>) returns
  \<open>c\<close>: if signal emission is enabled and \<open>c\<close> is true, exactly one \<open>CancelledOrder\<close>
  (respectively \<open>EditedOrder\<close>) record is appended to the builder live for the order's
  symbol, the edit record carrying the four optional edited fields as they were passed;
  otherwise no record is added. In each case \<open>c\<close> is returned unchanged.
\<close>

theorem cancel_and_edit_order_signal:
  assumes em: "exchange_manager m = Some em"
    and emit: "should_emit_trading_signal m = Returned v"
  shows "(\<forall>c x. trader_cancel_order env order ignored (exchange_state w) = (Returned c, x) \<longrightarrow>
            (truthy v \<and> c \<longrightarrow> (\<forall>b. builders w (symbol order) = Some b \<longrightarrow>
               cancel_order m env order ignored w
                 = (Returned c,
                    w\<lparr>exchange_state := x,
                      builders := (builders w)(symbol order \<mapsto>
                        b\<lparr>records := records b @ [CancelledOrder order em]\<rparr>)\<rparr>)))
          \<and> (\<not> (truthy v \<and> c) \<longrightarrow>
               cancel_order m env order ignored w = (Returned c, w\<lparr>exchange_state := x\<rparr>)))
       \<and> (\<forall>c x. trader_edit_order env order q pr sp cp params (exchange_state w)
                  = (Returned c, x) \<longrightarrow>
            (truthy v \<and> c \<longrightarrow> (\<forall>b. builders w (symbol order) = Some b \<longrightarrow>
               edit_order m env order q pr sp cp params w
                 = (Returned c,
                    w\<lparr>exchange_state := x,
                      builders := (builders w)(symbol order \<mapsto>
                        b\<lparr>records := records b @ [EditedOrder order em q pr sp cp]\<rparr>)\<rparr>)))
          \<and> (\<not> (truthy v \<and> c) \<longrightarrow>
               edit_order m env order q pr sp cp params w
                 = (Returned c, w\<lparr>exchange_state := x\<rparr>)))"
  using em emit by (auto simp: cancel_order_def edit_order_def add_record_def)

lemmas order_eval_defs = create_order_def cancel_order_def edit_order_def order_pf_percent_def
  should_emit_trading_signal_def is_trading_signal_emitter_def get_trading_signal_identifier_def
  add_record_def open_builder_def close_builder_def log_exception_def enter_scope_def
  leave_scope_def with_remote_signal_publisher_def TRADING_SIGNAL_TIMEOUT_def
  live_mode_def buy_order_def spend_def example_order_env_def rejecting_order_env_def
  live_world_def initial_world_def backtest_mode_def

theorem create_order_signal_witness:
  "create_order live_mode rejecting_order_env buy_order False None None live_world
     = (Returned None, live_world\<lparr>exchange_state := exchange_state live_world\<rparr>)
   \<and> fst (create_order live_mode example_order_env buy_order False None None live_world)
       = Returned (Some buy_order)
   \<and> map_option records
         (builders (snd (create_order live_mode example_order_env buy_order False None None
            live_world)) ''BTC/USDT'')
       = Some [CreatedOrder buy_order
                \<lparr>bot_id = ''X'', exchange_name = ''binance'', is_backtesting = False\<rparr> ''25.0%'']
   \<and> exchange_state live_world ''USDT'' = Some 1000
   \<and> exchange_state (snd (create_order live_mode example_order_env buy_order False None None
         live_world)) ''USDT'' = Some 750
   \<and> create_order backtest_mode example_order_env buy_order False None None live_world
       = (Returned (Some buy_order),
          live_world\<lparr>exchange_state := spend buy_order (exchange_state live_world)\<rparr>)"
proof -
  let ?em = "\<lparr>bot_id = ''X'', exchange_name = ''binance'', is_backtesting = False\<rparr>"
  let ?emb = "\<lparr>bot_id = ''X'', exchange_name = ''binance'', is_backtesting = True\<rparr>"
  have a: "create_order live_mode rejecting_order_env buy_order False None None live_world
     = (Returned None, live_world\<lparr>exchange_state := exchange_state live_world\<rparr>)"
    using create_order_signal [of live_mode ?em "CBool True" rejecting_order_env live_world
        buy_order 25 False None None None "exchange_state live_world"]
    by (simp add: order_eval_defs)
  have b: "create_order live_mode example_order_env buy_order False None None live_world
     = (Returned (Some buy_order),
        live_world\<lparr>exchange_state := spend buy_order (exchange_state live_world),
          builders := (builders live_world)(symbol buy_order \<mapsto>
            \<lparr>signal_identifier = CStr ''DailyTradingMode'', signal_timeout = 10, records = []\<rparr>
              \<lparr>records := [] @ [CreatedOrder buy_order ?em
                 (float_str example_order_env 25 @ percent_value example_order_env)]\<rparr>)\<rparr>)"
    using create_order_signal [of live_mode ?em "CBool True" example_order_env live_world
        buy_order 25 False None None "Some buy_order" "spend buy_order (exchange_state live_world)"]
    by (simp add: order_eval_defs)
  have c: "create_order backtest_mode example_order_env buy_order False None None live_world
       = (Returned (Some buy_order),
          live_world\<lparr>exchange_state := spend buy_order (exchange_state live_world)\<rparr>)"
    using create_order_signal [of backtest_mode ?emb "CBool False" example_order_env live_world
        buy_order 25 False None None "Some buy_order" "spend buy_order (exchange_state live_world)"]
    by (simp add: order_eval_defs)
  have d: "exchange_state live_world ''USDT'' = Some 1000" by (simp add: order_eval_defs)
  from a b c d show ?thesis
    by (simp add: buy_order_def example_order_env_def spend_def)
qed

theorem cancel_and_edit_order_signal_witness:
  "fst (cancel_order live_mode example_order_env buy_order None live_world) = Returned True
   \<and> map_option records
         (builders (snd (cancel_order live_mode example_order_env buy_order None live_world))
            ''BTC/USDT'')
       = Some [CancelledOrder buy_order
                \<lparr>bot_id = ''X'', exchange_name = ''binance'', is_backtesting = False\<rparr>]
   \<and> cancel_order live_mode rejecting_order_env buy_order None live_world
       = (Returned False, live_world\<lparr>exchange_state := exchange_state live_world\<rparr>)
   \<and> fst (edit_order live_mode example_order_env buy_order (Some 300) None (Some 7) None None
         live_world) = Returned True
   \<and> map_option records
         (builders (snd (edit_order live_mode example_order_env buy_order (Some 300) None (Some 7)
            None None live_world)) ''BTC/USDT'')
       = Some [EditedOrder buy_order
                \<lparr>bot_id = ''X'', exchange_name = ''binance'', is_backtesting = False\<rparr>
                (Some 300) None (Some 7) None]
   \<and> edit_order live_mode rejecting_order_env buy_order (Some 300) None (Some 7) None None
         live_world
       = (Returned False, live_world\<lparr>exchange_state := exchange_state live_world\<rparr>)"
proof -
  let ?em = "\<lparr>bot_id = ''X'', exchange_name = ''binance'', is_backtesting = False\<rparr>"
  let ?b = "\<lparr>signal_identifier = CStr ''DailyTradingMode'', signal_timeout = 10, records = []\<rparr>"
  have h: "exchange_manager live_mode = Some ?em"
    "should_emit_trading_signal live_mode = Returned (CBool True)"
    "builders live_world (symbol buy_order) = Some ?b"
    by (simp_all add: order_eval_defs)
  note t1 = cancel_and_edit_order_signal [OF h(1) h(2), where env = example_order_env
      and order = buy_order and ignored = None and w = live_world and q = "Some 300"
      and pr = None and sp = "Some 7" and cp = None and params = None]
  note t2 = cancel_and_edit_order_signal [OF h(1) h(2), where env = rejecting_order_env
      and order = buy_order and ignored = None and w = live_world and q = "Some 300"
      and pr = None and sp = "Some 7" and cp = None and params = None]
  have c1: "cancel_order live_mode example_order_env buy_order None live_world
      = (Returned True, live_world\<lparr>exchange_state := exchange_state live_world,
           builders := (builders live_world)(symbol buy_order \<mapsto>
              ?b\<lparr>records := records ?b @ [CancelledOrder buy_order ?em]\<rparr>)\<rparr>)"
    using t1 h(3) by (auto simp: example_order_env_def)
  have e1: "edit_order live_mode example_order_env buy_order (Some 300) None (Some 7) None None
        live_world
      = (Returned True, live_world\<lparr>exchange_state := exchange_state live_world,
           builders := (builders live_world)(symbol buy_order \<mapsto>
              ?b\<lparr>records := records ?b
                 @ [EditedOrder buy_order ?em (Some 300) None (Some 7) None]\<rparr>)\<rparr>)"
    using t1 h(3) by (auto simp: example_order_env_def)
  have c2: "cancel_order live_mode rejecting_order_env buy_order None live_world
       = (Returned False, live_world\<lparr>exchange_state := exchange_state live_world\<rparr>)"
    using t2 by (auto simp: example_order_env_def rejecting_order_env_def)
  have e2: "edit_order live_mode rejecting_order_env buy_order (Some 300) None (Some 7) None None
         live_world
       = (Returned False, live_world\<lparr>exchange_state := exchange_state live_world\<rparr>)"
    using t2 by (auto simp: example_order_env_def rejecting_order_env_def)
  from c1 e1 c2 e2 show ?thesis by (simp add: buy_order_def)
qed

lemma silent_create_order:
  assumes "should_emit_trading_signal m = Returned v" "\<not> truthy v"
  shows "builders (snd (create_order m env order loaded params cb w)) = builders w"
  using assms
  by (cases "trader_create_order env order loaded params cb (exchange_state w)")
     (auto simp: create_order_def order_pf_percent_def split: option.splits outcome.splits)

lemma silent_cancel_order:
  assumes "should_emit_trading_signal m = Returned v" "\<not> truthy v"
  shows "builders (snd (cancel_order m env order ignored w)) = builders w"
  using assms
  by (cases "trader_cancel_order env order ignored (exchange_state w)")
     (auto simp: cancel_order_def split: option.splits outcome.splits)

lemma silent_edit_order:
  assumes "should_emit_trading_signal m = Returned v" "\<not> truthy v"
  shows "builders (snd (edit_order m env order q pr sp cp params w)) = builders w"
  using assms
  by (cases "trader_edit_order env order q pr sp cp params (exchange_state w)")
     (auto simp: edit_order_def split: option.splits outcome.splits)

lemma released_order_methods:
  assumes "exchange_manager m = None"
  shows "create_order m env order loaded params cb w = (Raised AttributeError, w)"
    and "cancel_order m env order ignored w = (Raised AttributeError, w)"
    and "edit_order m env order q pr sp cp params w = (Raised AttributeError, w)"
  using assms
  by (simp_all add: create_order_def order_pf_percent_def should_emit_trading_signal_def
      cancel_order_def edit_order_def)

text \<open>
  Claim C10. With a loaded configuration that lacks the emit-trading-signals key,
  \<open>is_trading_signal_emitter\<close> returns \<open>False\<close> instead of raising;
  \<open>should_emit_trading_signal\<close> is then \<open>False\<close> and the signal scope yields \<open>None\<close>;
  and no order method adds a record to any builder.
\<close>

theorem missing_signals_key_disables_signals:
  assumes cfg: "trading_config m = Some cfg"
    and missing: "cfg CONFIG_EMIT_TRADING_SIGNALS = None"
  shows "is_trading_signal_emitter m = Returned (CBool False)
       \<and> (exchange_manager m \<noteq> None \<longrightarrow>
            should_emit_trading_signal m = Returned (CBool False)
            \<and> enter_scope m senv key w = (Returned None, w))
       \<and> builders (snd (create_order m env order loaded params cb w)) = builders w
       \<and> builders (snd (cancel_order m env order ignored w)) = builders w
       \<and> builders (snd (edit_order m env order q pr sp cp params w)) = builders w"
proof -
  have e: "is_trading_signal_emitter m = Returned (CBool False)"
    using cfg missing by (simp add: is_trading_signal_emitter_def)
  show ?thesis
  proof (cases "exchange_manager m")
    case None
    with e released_order_methods [OF None] show ?thesis by simp
  next
    case (Some em)
    with e have s: "should_emit_trading_signal m = Returned (CBool False)"
      by (simp add: should_emit_trading_signal_def)
    have t: "\<not> truthy (CBool False)" by simp
    from s have "enter_scope m senv key w = (Returned None, w)"
      by (simp add: enter_scope_def)
    with e s Some silent_create_order [OF s t] silent_cancel_order [OF s t]
      silent_edit_order [OF s t]
    show ?thesis by simp
  qed
qed

theorem missing_signals_key_disables_signals_witness:
  "is_trading_signal_emitter unconfigured_mode = Returned (CBool False)
   \<and> exchange_manager unconfigured_mode \<noteq> None
   \<and> should_emit_trading_signal unconfigured_mode = Returned (CBool False)
   \<and> enter_scope unconfigured_mode \<lparr>enter_raises = None, exit_raises = None\<rparr> ''BTC/USDT''
         initial_world = (Returned None, initial_world)
   \<and> builders (snd (create_order unconfigured_mode example_order_env buy_order False None None
         live_world)) = builders live_world"
proof -
  have h: "trading_config unconfigured_mode = Some [OtherKey ''required_strategies'' \<mapsto> CStr ''s'']"
    "[OtherKey ''required_strategies'' \<mapsto> CStr ''s''] CONFIG_EMIT_TRADING_SIGNALS = None"
    "exchange_manager unconfigured_mode \<noteq> None"
    by (simp_all add: unconfigured_mode_def live_mode_def)
  from missing_signals_key_disables_signals [OF h(1) h(2),
      where senv = "\<lparr>enter_raises = None, exit_raises = None\<rparr>" and key = "''BTC/USDT''"
        and w = initial_world] h(3)
    missing_signals_key_disables_signals [OF h(1) h(2),
      where env = example_order_env and order = buy_order and loaded = False and params = None
        and cb = None and w = live_world]
  show ?thesis by simp
qed

lemma should_emit_has_manager:
  "should_emit_trading_signal m = Returned v \<Longrightarrow> \<exists>em. exchange_manager m = Some em"
  by (cases "exchange_manager m") (simp_all add: should_emit_trading_signal_def)

lemma order_methods_return_trader_result:
  assumes emit: "should_emit_trading_signal m = Returned v"
    and live: "truthy v \<longrightarrow> builders w (symbol order) \<noteq> None"
  shows "trader_cancel_order env order ignored (exchange_state w) = (Returned c, x)
           \<Longrightarrow> fst (cancel_order m env order ignored w) = Returned c"
    and "trader_edit_order env order q pr sp cp params (exchange_state w) = (Returned c, x)
           \<Longrightarrow> fst (edit_order m env order q pr sp cp params w) = Returned c"
    and "trader_create_order env order loaded ps cb (exchange_state w) = (Returned co, x)
           \<Longrightarrow> truthy v \<longrightarrow> get_order_size_portfolio_percent env (exchange_state w)
                 (origin_quantity order) (side order) (symbol order) = Returned p
           \<Longrightarrow> fst (create_order m env order loaded ps cb w) = Returned co"
proof -
  from should_emit_has_manager [OF emit] obtain em where em: "exchange_manager m = Some em" ..
  show "trader_cancel_order env order ignored (exchange_state w) = (Returned c, x)
           \<Longrightarrow> fst (cancel_order m env order ignored w) = Returned c"
    using em emit live by (auto simp: cancel_order_def add_record_def)
  show "trader_edit_order env order q pr sp cp params (exchange_state w) = (Returned c, x)
           \<Longrightarrow> fst (edit_order m env order q pr sp cp params w) = Returned c"
    using em emit live by (auto simp: edit_order_def add_record_def)
  show "trader_create_order env order loaded ps cb (exchange_state w) = (Returned co, x)
           \<Longrightarrow> truthy v \<longrightarrow> get_order_size_portfolio_percent env (exchange_state w)
                 (origin_quantity order) (side order) (symbol order) = Returned p
           \<Longrightarrow> fst (create_order m env order loaded ps cb w) = Returned co"
    using em emit live
    by (cases co) (auto simp: create_order_def order_pf_percent_def add_record_def)
qed

lemma open_builder_live [simp]: "\<exists>b. builders (open_builder key ident w) key = Some b"
  by (cases "builders w key") (simp_all add: open_builder_def)

lemma exchange_state_open_builder [simp]:
  "exchange_state (open_builder key ident w) = exchange_state w"
  by (cases "builders w key") (simp_all add: open_builder_def)

lemma enter_scope_returned:
  assumes "enter_scope m senv key w = (Returned y, w1)"
  shows "\<exists>v. should_emit_trading_signal m = Returned v
           \<and> (truthy v \<longrightarrow> y = Some key \<and> builders w1 key \<noteq> None)
           \<and> (\<not> truthy v \<longrightarrow> y = None \<and> w1 = w)"
  using assms unfolding enter_scope_def
  by (cases "should_emit_trading_signal m"; cases "get_trading_signal_identifier m";
      cases "enter_raises senv")
     (auto split: if_splits)

text \<open>
  Claim C4. When the transport's scope can be entered, \<open>remote_signal_publisher\<close>
  yields a builder that is live for the symbol if the mode is configured to emit signals
  and is not backtesting, and yields \<open>None\<close> otherwise. Whatever it yields, the order
  methods called inside the scope for that symbol return the trader's result: the caller
  calls the same methods in both cases.
\<close>

theorem remote_signal_publisher_yield:
  assumes em: "exchange_manager m = Some em"
  shows "(\<not> is_backtesting em \<and> is_trading_signal_emitter m = Returned v \<and> truthy v
            \<and> enter_raises senv = None \<longrightarrow>
          (\<exists>ident. get_trading_signal_identifier m = Returned ident
             \<and> enter_scope m senv key w = (Returned (Some key), open_builder key ident w)
             \<and> builders (open_builder key ident w) key \<noteq> None))
       \<and> (is_backtesting em \<or> is_trading_signal_emitter m = Returned v \<and> \<not> truthy v \<longrightarrow>
            enter_scope m senv key w = (Returned None, w))
       \<and> (\<forall>y w1. enter_scope m senv key w = (Returned y, w1) \<and> symbol order = key \<longrightarrow>
            (\<forall>c x. trader_cancel_order env order ignored (exchange_state w1) = (Returned c, x)
               \<longrightarrow> fst (cancel_order m env order ignored w1) = Returned c)
          \<and> (\<forall>c x. trader_edit_order env order q pr sp cp params (exchange_state w1)
                    = (Returned c, x)
               \<longrightarrow> fst (edit_order m env order q pr sp cp params w1) = Returned c)
          \<and> (\<forall>co x p. trader_create_order env order loaded params cb (exchange_state w1)
                    = (Returned co, x)
                  \<and> get_order_size_portfolio_percent env (exchange_state w1)
                      (origin_quantity order) (side order) (symbol order) = Returned p
               \<longrightarrow> fst (create_order m env order loaded params cb w1) = Returned co))"
proof (intro conjI impI allI)
  assume a: "\<not> is_backtesting em \<and> is_trading_signal_emitter m = Returned v \<and> truthy v
            \<and> enter_raises senv = None"
  then obtain cfg where cfg: "trading_config m = Some cfg"
    by (cases "trading_config m") (simp_all add: is_trading_signal_emitter_def)
  then have "\<exists>ident. get_trading_signal_identifier m = Returned ident"
    by (simp add: get_trading_signal_identifier_def split: option.splits)
  then obtain ident where i: "get_trading_signal_identifier m = Returned ident" ..
  from a em have "should_emit_trading_signal m = Returned v"
    by (simp add: should_emit_trading_signal_def)
  with a i have "enter_scope m senv key w = (Returned (Some key), open_builder key ident w)"
    by (simp add: enter_scope_def)
  with i show "\<exists>ident. get_trading_signal_identifier m = Returned ident
             \<and> enter_scope m senv key w = (Returned (Some key), open_builder key ident w)
             \<and> builders (open_builder key ident w) key \<noteq> None"
    by simp
next
  assume "is_backtesting em \<or> is_trading_signal_emitter m = Returned v \<and> \<not> truthy v"
  with em show "enter_scope m senv key w = (Returned None, w)"
    by (auto simp: enter_scope_def should_emit_trading_signal_def)
next
  fix y w1 c x
  assume a: "enter_scope m senv key w = (Returned y, w1) \<and> symbol order = key"
    and t: "trader_cancel_order env order ignored (exchange_state w1) = (Returned c, x)"
  from enter_scope_returned a obtain v' where
    "should_emit_trading_signal m = Returned v'" "truthy v' \<longrightarrow> builders w1 (symbol order) \<noteq> None"
    by blast
  from order_methods_return_trader_result(1) [OF this t]
  show "fst (cancel_order m env order ignored w1) = Returned c" .
next
  fix y w1 c x
  assume a: "enter_scope m senv key w = (Returned y, w1) \<and> symbol order = key"
    and t: "trader_edit_order env order q pr sp cp params (exchange_state w1) = (Returned c, x)"
  from enter_scope_returned a obtain v' where
    "should_emit_trading_signal m = Returned v'" "truthy v' \<longrightarrow> builders w1 (symbol order) \<noteq> None"
    by blast
  from order_methods_return_trader_result(2) [OF this t]
  show "fst (edit_order m env order q pr sp cp params w1) = Returned c" .
next
  fix y w1 co x p
  assume a: "enter_scope m senv key w = (Returned y, w1) \<and> symbol order = key"
    and t: "trader_create_order env order loaded params cb (exchange_state w1) = (Returned co, x)
                  \<and> get_order_size_portfolio_percent env (exchange_state w1)
                      (origin_quantity order) (side order) (symbol order) = Returned p"
  from enter_scope_returned a obtain v' where
    "should_emit_trading_signal m = Returned v'" "truthy v' \<longrightarrow> builders w1 (symbol order) \<noteq> None"
    by blast
  from order_methods_return_trader_result(3) [OF this] t
  show "fst (create_order m env order loaded params cb w1) = Returned co" by blast
qed

theorem remote_signal_publisher_yield_witness:
  "enter_scope live_mode scope_ok ''BTC/USDT'' initial_world
     = (Returned (Some ''BTC/USDT''), live_world)
   \<and> builders live_world ''BTC/USDT'' \<noteq> None
   \<and> enter_scope backtest_mode scope_ok ''BTC/USDT'' initial_world = (Returned None, initial_world)
   \<and> fst (cancel_order live_mode example_order_env buy_order None live_world) = Returned True
   \<and> fst (cancel_order backtest_mode example_order_env buy_order None initial_world)
       = Returned True"
proof -
  let ?em = "\<lparr>bot_id = ''X'', exchange_name = ''binance'', is_backtesting = False\<rparr>"
  let ?emb = "\<lparr>bot_id = ''X'', exchange_name = ''binance'', is_backtesting = True\<rparr>"
  have l: "exchange_manager live_mode = Some ?em" by (simp add: live_mode_def)
  have b: "exchange_manager backtest_mode = Some ?emb" by (simp add: backtest_mode_def)
  note tl = remote_signal_publisher_yield [OF l, where v = "CBool True" and senv = scope_ok
      and key = "''BTC/USDT''" and w = initial_world and order = buy_order
      and env = example_order_env and ignored = None]
  note tb = remote_signal_publisher_yield [OF b, where v = "CBool False" and senv = scope_ok
      and key = "''BTC/USDT''" and w = initial_world and order = buy_order
      and env = example_order_env and ignored = None]
  have 1: "enter_scope live_mode scope_ok ''BTC/USDT'' initial_world
     = (Returned (Some ''BTC/USDT''), live_world)
     \<and> builders live_world ''BTC/USDT'' \<noteq> None"
    using tl
    by (auto simp: live_world_def live_mode_def scope_ok_def is_trading_signal_emitter_def
        get_trading_signal_identifier_def)
  have 2: "enter_scope backtest_mode scope_ok ''BTC/USDT'' initial_world
     = (Returned None, initial_world)"
    using tb by simp
  have s: "symbol buy_order = ''BTC/USDT''" by (simp add: buy_order_def)
  have t: "\<And>w. trader_cancel_order example_order_env buy_order None (exchange_state w)
      = (Returned True, exchange_state w)"
    by (simp add: example_order_env_def)
  have 3: "fst (cancel_order live_mode example_order_env buy_order None live_world)
     = Returned True"
    using tl 1 s t [of live_world] by blast
  have 4: "fst (cancel_order backtest_mode example_order_env buy_order None initial_world)
     = Returned True"
    using tb 2 s t [of initial_world] by blast
  from 1 2 3 4 show ?thesis by simp
qed

lemma close_builder_frame [simp]:
  "exchange_state (close_builder sent key w) = exchange_state w"
  "trace (close_builder sent key w) = trace w"
  "saved_run_metadata_db_by_bot_id (close_builder sent key w) = saved_run_metadata_db_by_bot_id w"
  "logged (close_builder sent key w) = logged w"
  "emitted (close_builder False key w) = emitted w"
  by (cases "builders w key"; simp add: close_builder_def)+



section \<open>Rounding in the backtesting metadata\<close>

lemma round_half_even_near: "\<bar>of_int (round_half_even x) - x\<bar> \<le> 1 / 2"
proof -
  have b: "of_int \<lfloor>x\<rfloor> \<le> x" "x < of_int \<lfloor>x\<rfloor> + 1" by linarith+
  consider (low) "x - of_int \<lfloor>x\<rfloor> < 1 / 2" | (high) "1 / 2 < x - of_int \<lfloor>x\<rfloor>"
    | (tie) "x - of_int \<lfloor>x\<rfloor> = 1 / 2" by linarith
  then show ?thesis
  proof cases
    case low
    then have "round_half_even x = \<lfloor>x\<rfloor>" by (simp add: round_half_even_def)
    with low b show ?thesis by (simp add: abs_le_iff)
  next
    case high
    then have "round_half_even x = \<lfloor>x\<rfloor> + 1" by (simp add: round_half_even_def)
    with high b show ?thesis by (simp add: abs_le_iff)
  next
    case tie
    then have "round_half_even x = \<lfloor>x\<rfloor> \<or> round_half_even x = \<lfloor>x\<rfloor> + 1"
      by (simp add: round_half_even_def)
    with tie show ?thesis by (auto simp: abs_le_iff)
  qed
qed

lemma py_round_rounded: "rounded_to n x (py_round x n)"
proof -
  let ?p = "(10::rat) ^ n"
  let ?k = "round_half_even (x * ?p)"
  have p: "0 < ?p" by simp
  have y: "py_round x n * ?p = of_int ?k" by (simp add: py_round_def)
  have "\<bar>py_round x n - x\<bar> * ?p = \<bar>py_round x n * ?p - x * ?p\<bar>"
    using abs_mult_pos [of ?p "py_round x n - x"] p by (simp only: left_diff_distrib less_imp_le)
  also have "\<dots> = \<bar>of_int ?k - x * ?p\<bar>" by (simp only: y)
  also have "\<dots> \<le> 1 / 2" by (rule round_half_even_near)
  finally have "\<bar>py_round x n - x\<bar> * ?p \<le> 1 / 2" .
  then have "\<bar>py_round x n - x\<bar> * (2 * ?p) \<le> 1" by simp
  moreover have "of_int \<lfloor>py_round x n * ?p\<rfloor> = py_round x n * ?p" by (simp only: y) simp
  ultimately show ?thesis by (simp add: rounded_to_def)
qed

lemma or_zero_Some [simp]: "or_zero (Some x) = x"
  by (simp add: or_zero_def)

lemma get_backtesting_metadata_numbers:
  assumes "get_backtesting_metadata to_float m d user_inputs = Returned md"
  shows "md GAINS = Some (MNum (py_round (to_float (profitability d)) 8))"
    and "md PERCENT_GAINS = Some (MNum (py_round (to_float (profitability_percent d)) 3))"
    and "md WIN_RATE = Some (MNum (py_round (to_float (win_rate d * 100)) 3))"
    and "md DRAW_DOWN = Some (MNum (py_round (to_float (draw_down d)) 3))"
    and "md DURATION = Some (MNum (py_round (backtesting_duration d) 3))"
proof -
  from assms obtain em leverage where
    "exchange_manager m = Some em"
    "(if has_future_contracts d
      then (case trading_pairs d of
              [] \<Rightarrow> Raised IndexError
            | s # _ \<Rightarrow> Returned (to_float (pair_current_leverage d s)))
      else Returned 0) = Returned leverage"
    unfolding get_backtesting_metadata_def
    by (cases "exchange_manager m";
        cases "if has_future_contracts d
               then (case trading_pairs d of
                       [] \<Rightarrow> Raised IndexError
                     | s # _ \<Rightarrow> Returned (to_float (pair_current_leverage d s)))
               else Returned 0") simp_all
  with assms have md: "md =
      [OPTIMIZATION_CAMPAIGN \<mapsto> MStr (optimization_campaign_name d),
       BACKTESTING_ID \<mapsto> MStr (backtesting_id d),
       GAINS \<mapsto> MNum (py_round (to_float (profitability d)) 8),
       PERCENT_GAINS \<mapsto> MNum (py_round (to_float (profitability_percent d)) 3),
       END_PORTFOLIO \<mapsto> MStr (end_portfolio_str d),
       START_PORTFOLIO \<mapsto> MStr (origin_portfolio_str d),
       WIN_RATE \<mapsto> MNum (py_round (to_float (win_rate d * 100)) 3),
       DRAW_DOWN \<mapsto> MNum (or_zero (Some (py_round (to_float (draw_down d)) 3))),
       COEFFICIENT_OF_DETERMINATION_MAX_BALANCE \<mapsto> MNum (or_zero (r_sq_max_balance d)),
       COEFFICIENT_OF_DETERMINATION_END_BALANCE \<mapsto> MNum (or_zero (r_sq_end_balance d)),
       SYMBOLS \<mapsto> MStrs (trading_pairs d),
       TIME_FRAMES \<mapsto> MStrs (required_time_frames d),
       START_TIME \<mapsto> MNum (backtesting_starting_time d),
       END_TIME \<mapsto> MNum (backtesting_ending_time d),
       DURATION \<mapsto> MNum (py_round (backtesting_duration d) 3),
       ENTRIES \<mapsto> MInt (int (length
          (filter (\<lambda>t. trade_status t = FILLED \<and> trade_side t = BUY) (trade_history d)))),
       WINS \<mapsto> MInt (round_half_even (py_round (to_float (win_rate d * 100)) 3
          * of_nat (length
              (filter (\<lambda>t. trade_status t = FILLED \<and> trade_side t = BUY) (trade_history d)))
          / 100)),
       LOSES \<mapsto> MInt (int (length
          (filter (\<lambda>t. trade_status t = FILLED \<and> trade_side t = BUY) (trade_history d)))
          - round_half_even (py_round (to_float (win_rate d * 100)) 3
             * of_nat (length
                 (filter (\<lambda>t. trade_status t = FILLED \<and> trade_side t = BUY) (trade_history d)))
             / 100)),
       TRADES \<mapsto> MInt (int (length (trade_history d))),
       TIMESTAMP \<mapsto> MNum (start_time d),
       MODE_NAME \<mapsto> MStr (name m),
       LEVERAGE \<mapsto> MNum leverage,
       USER_INPUTS \<mapsto> MInputs (format_user_inputs user_inputs Map.empty),
       BACKTESTING_FILES \<mapsto> MStrs (backtesting_data_files d),
       EXCHANGE \<mapsto> MStr (exchange_name em)]"
    by (simp add: get_backtesting_metadata_def get_additional_backtesting_metadata_def Let_def)
  show "md GAINS = Some (MNum (py_round (to_float (profitability d)) 8))"
    by (simp add: md)
  show "md PERCENT_GAINS = Some (MNum (py_round (to_float (profitability_percent d)) 3))"
    by (simp add: md)
  show "md WIN_RATE = Some (MNum (py_round (to_float (win_rate d * 100)) 3))"
    by (simp add: md)
  show "md DRAW_DOWN = Some (MNum (py_round (to_float (draw_down d)) 3))"
    by (simp add: md)
  show "md DURATION = Some (MNum (py_round (backtesting_duration d) 3))"
    by (simp add: md)
qed

text \<open>
  Claim C8. In every record that \<open>get_backtesting_metadata\<close> returns, the absolute gain
  is the profitability rounded to 8 decimal places, and the percent gain, the win rate
  (in percent), the draw-down and the duration are rounded to 3 decimal places: each is
  the value of \<open>round\<close> with that number of digits, a multiple of \<open>10\<^sup>-\<^sup>n\<close> at most half a
  unit of the last place from the unrounded value.
\<close>

theorem backtesting_metadata_rounding:
  assumes "get_backtesting_metadata to_float m d user_inputs = Returned md"
  shows "(\<exists>g. md GAINS = Some (MNum g) \<and> g = py_round (to_float (profitability d)) 8
            \<and> rounded_to 8 (to_float (profitability d)) g)
       \<and> (\<exists>g. md PERCENT_GAINS = Some (MNum g)
            \<and> g = py_round (to_float (profitability_percent d)) 3
            \<and> rounded_to 3 (to_float (profitability_percent d)) g)
       \<and> (\<exists>r. md WIN_RATE = Some (MNum r) \<and> r = py_round (to_float (win_rate d * 100)) 3
            \<and> rounded_to 3 (to_float (win_rate d * 100)) r)
       \<and> (\<exists>r. md DRAW_DOWN = Some (MNum r) \<and> r = py_round (to_float (draw_down d)) 3
            \<and> rounded_to 3 (to_float (draw_down d)) r)
       \<and> (\<exists>t. md DURATION = Some (MNum t) \<and> t = py_round (backtesting_duration d) 3
            \<and> rounded_to 3 (backtesting_duration d) t)"
  using get_backtesting_metadata_numbers [OF assms] py_round_rounded by simp

lemma floor_eval:
  "\<lfloor>(123456789123::rat) / 10\<rfloor> = 12345678912"
  "\<lfloor>(61728::rat) / 5\<rfloor> = 12345"
  "\<lfloor>(10000::rat) / 3\<rfloor> = 3333"
  "\<lfloor>(2469::rat) / 2\<rfloor> = 1234"
  by (rule floor_unique; simp)+

lemma round_half_even_eval:
  "round_half_even (123456789123 / 10) = 12345678912"
  "round_half_even (61728 / 5) = 12346"
  "round_half_even 60000 = 60000"
  "round_half_even (10000 / 3) = 3333"
  "round_half_even (2469 / 2) = 1234"
  by (simp_all add: round_half_even_def floor_eval)

theorem backtesting_metadata_rounding_witness:
  "(\<exists>md. get_backtesting_metadata (\<lambda>x. x) backtest_mode example_run_data [] = Returned md
      \<and> md GAINS = Some (MNum (12345678912 / 10 ^ 8))
      \<and> md PERCENT_GAINS = Some (MNum (12346 / 10 ^ 3))
      \<and> md WIN_RATE = Some (MNum 60)
      \<and> md DRAW_DOWN = Some (MNum (3333 / 10 ^ 3))
      \<and> md DURATION = Some (MNum (1234 / 10 ^ 3)))"
proof -
  obtain md where md:
    "get_backtesting_metadata (\<lambda>x. x) backtest_mode example_run_data [] = Returned md"
    by (simp add: get_backtesting_metadata_def backtest_mode_def example_run_data_def Let_def)
  from backtesting_metadata_rounding [OF md]
  have "md GAINS = Some (MNum (py_round (profitability example_run_data) 8))"
    "md PERCENT_GAINS = Some (MNum (py_round (profitability_percent example_run_data) 3))"
    "md WIN_RATE = Some (MNum (py_round (win_rate example_run_data * 100) 3))"
    "md DRAW_DOWN = Some (MNum (py_round (draw_down example_run_data) 3))"
    "md DURATION = Some (MNum (py_round (backtesting_duration example_run_data) 3))"
    by simp_all
  then have "md GAINS = Some (MNum (12345678912 / 10 ^ 8))
      \<and> md PERCENT_GAINS = Some (MNum (12346 / 10 ^ 3))
      \<and> md WIN_RATE = Some (MNum 60)
      \<and> md DRAW_DOWN = Some (MNum (3333 / 10 ^ 3))
      \<and> md DURATION = Some (MNum (1234 / 10 ^ 3))"
    by (simp add: example_run_data_def py_round_def round_half_even_eval)
  with md show ?thesis by blast
qed

end
